theory Spec2Isabelle
  imports Complex_Main "HOL-Library.Product_Lexorder"
begin

section \<open>Tables\<close>

text \<open>
  A calendar date is \<open>(year, month, day)\<close>, ordered lexicographically, as Python's
  \<open>datetime.date\<close> is. A pandas timestamp is a date with the nanoseconds elapsed since
  midnight. A nullable cell (\<open>NaN\<close>, \<open>NaT\<close>, \<open>None\<close>) is an \<open>option\<close>.
  A float64 cell is the real number it denotes. The sums and means of the daily table are
  written without rounding; the statements on the daily table below are on its counts, on
  its order, on the recurrence of the running sum and on tables of small integers, which
  float64 computes exactly. Where the rounding decides the result, in the Sharpe ratio,
  the float64 operations are parameters.
\<close>

type_synonym date = "nat \<times> nat \<times> nat"
type_synonym datetime = "date \<times> nat"

text \<open>One row of the trading table: the columns the code reads.\<close>

record trade =
  Timestamp_IST :: "string option"
  Timestamp :: "real option"
  datetime :: "datetime option"
  date :: "date option"
  Side :: "string option"
  Closed_PnL :: "real option"
  Size_USD :: "real option"
  Fee :: "real option"

text \<open>A trading data frame: the names of its columns and its rows.\<close>

record trading_df =
  columns :: "string list"
  rows :: "trade list"

text \<open>
  One row of the Fear and Greed table. Its date is the key of the join and is not null:
  the loader drops every sentiment row with a null cell.
\<close>

record fear_greed =
  fg_date :: date
  fg_value :: "real option"
  classification :: "string option"

text \<open>A row of the merged table: a trade with the sentiment of its date.\<close>

record merged = trade +
  sentiment_score :: "real option"
  sentiment_category :: "string option"

section \<open>Column reductions of pandas\<close>

text \<open>\<open>Series.sum\<close>, \<open>count\<close>, \<open>mean\<close>, \<open>std\<close> skip null cells.\<close>

definition notna :: "'a option list \<Rightarrow> 'a list" where
  "notna xs = List.map_filter (\<lambda>x. x) xs"

definition series_sum :: "real option list \<Rightarrow> real" where
  "series_sum xs = sum_list (notna xs)"

definition series_count :: "real option list \<Rightarrow> nat" where
  "series_count xs = length (notna xs)"

definition mean_of :: "real list \<Rightarrow> real option" where
  "mean_of vs = (if vs = [] then None else Some (sum_list vs / real (length vs)))"

definition series_mean :: "real option list \<Rightarrow> real option" where
  "series_mean xs = mean_of (notna xs)"

text \<open>Sample standard deviation (\<open>ddof = 1\<close>): null below two values.\<close>

definition std_of :: "real list \<Rightarrow> real option" where
  "std_of vs =
     (if length vs < 2 then None
      else let mu = sum_list vs / real (length vs)
           in Some (sqrt (sum_list (map (\<lambda>v. (v - mu)\<^sup>2) vs) / real (length vs - 1))))"

definition series_std :: "real option list \<Rightarrow> real option" where
  "series_std xs = std_of (notna xs)"

text \<open>The group-by reduction \<open>first\<close>: the first cell that is not null.\<close>

fun first_valid :: "'a option list \<Rightarrow> 'a option" where
  "first_valid [] = None"
| "first_valid (None # xs) = first_valid xs"
| "first_valid (Some v # xs) = Some v"

text \<open>\<open>Series.cumsum\<close> on a column without nulls.\<close>

fun cumsum_from :: "real \<Rightarrow> real list \<Rightarrow> real list" where
  "cumsum_from acc [] = []"
| "cumsum_from acc (x # xs) = (acc + x) # cumsum_from (acc + x) xs"

definition cumsum :: "real list \<Rightarrow> real list" where
  "cumsum xs = cumsum_from 0 xs"

text \<open>\<open>Series.ffill\<close>: a null cell takes the last cell before it that is not null.\<close>

fun ffill_from :: "'a option \<Rightarrow> 'a option list \<Rightarrow> 'a option list" where
  "ffill_from prev [] = []"
| "ffill_from prev (None # xs) = prev # ffill_from prev xs"
| "ffill_from prev (Some v # xs) = Some v # ffill_from (Some v) xs"

definition ffill :: "'a option list \<Rightarrow> 'a option list" where
  "ffill xs = ffill_from None xs"

text \<open>
  Division of two numeric columns: numpy gives an infinity for a nonzero numerator over
  zero and \<open>NaN\<close> for zero over zero, and does not raise.
\<close>

datatype npfloat = Fin real | PosInf | NegInf | NaN

definition np_div :: "real \<Rightarrow> real \<Rightarrow> npfloat" where
  "np_div a b =
     (if b \<noteq> 0 then Fin (a / b)
      else if a > 0 then PosInf else if a < 0 then NegInf else NaN)"

fun np_times :: "npfloat \<Rightarrow> real \<Rightarrow> npfloat" where
  "np_times (Fin a) k = Fin (a * k)"
| "np_times PosInf k = (if k > 0 then PosInf else if k < 0 then NegInf else NaN)"
| "np_times NegInf k = (if k > 0 then NegInf else if k < 0 then PosInf else NaN)"
| "np_times NaN k = NaN"


section \<open>Calendar alignment\<close>

text \<open>
  \<open>pd.to_datetime\<close> belongs to pandas, not to this repository: the parser of the format
  \<open>%d-%m-%Y %H:%M\<close> and the conversion of epoch seconds are parameters \<open>strp\<close> and
  \<open>epoch\<close>. With \<open>errors='coerce'\<close> a cell that does not parse becomes \<open>NaT\<close>, here
  \<open>None\<close>; a null cell stays null.
\<close>

definition fallback_datetime :: datetime where
  "fallback_datetime = ((2024, 12, 2), 0)"

definition dt_date :: "datetime option \<Rightarrow> date option" where
  "dt_date t = map_option fst t"

definition add_column :: "string \<Rightarrow> string list \<Rightarrow> string list" where
  "add_column c cs = (if c \<in> set cs then cs else cs @ [c])"

text \<open>The branch on the timestamp columns, lines 75 to 81 of \<open>data_processor.py\<close>
  and 35 to 41 of \<open>analysis.py\<close>.\<close>

definition set_datetime ::
  "(string \<Rightarrow> datetime option) \<Rightarrow> (real \<Rightarrow> datetime option) \<Rightarrow> trading_df \<Rightarrow> trading_df" where
  "set_datetime strp epoch df =
     (if ''Timestamp IST'' \<in> set (columns df) then
        df\<lparr>columns := add_column ''datetime'' (columns df),
           rows := map (\<lambda>r. r\<lparr>datetime := Option.bind (Timestamp_IST r) strp\<rparr>) (rows df)\<rparr>
      else if ''Timestamp'' \<in> set (columns df) then
        df\<lparr>columns := add_column ''datetime'' (columns df),
           rows := map (\<lambda>r. r\<lparr>datetime := Option.bind (Timestamp r) epoch\<rparr>) (rows df)\<rparr>
      else
        df\<lparr>columns := add_column ''datetime'' (columns df),
           rows := map (\<lambda>r. r\<lparr>datetime := Some fallback_datetime\<rparr>) (rows df)\<rparr>)"

definition set_date :: "trading_df \<Rightarrow> trading_df" where
  "set_date df =
     df\<lparr>columns := add_column ''date'' (columns df),
        rows := map (\<lambda>r. r\<lparr>date := dt_date (datetime r)\<rparr>) (rows df)\<rparr>"

text \<open>\<open>sort_values('datetime')\<close>: ascending, null cells last. Rows with the same
  timestamp keep their order here; the default quicksort of pandas may permute them, and
  no statement below depends on the order of the rows of the cleaned table.\<close>

definition sort_values_datetime :: "trade list \<Rightarrow> trade list" where
  "sort_values_datetime rs =
     sort_key (\<lambda>r. the (datetime r)) (filter (\<lambda>r. datetime r \<noteq> None) rs)
       @ filter (\<lambda>r. datetime r = None) rs"

text \<open>
  \<open>DataProcessor._clean_trading_data\<close>. The numeric columns are already numbers or
  null here, which is what \<open>pd.to_numeric(errors='coerce')\<close> leaves.
\<close>

definition clean_trading_data ::
  "(string \<Rightarrow> datetime option) \<Rightarrow> (real \<Rightarrow> datetime option) \<Rightarrow> trading_df \<Rightarrow> trading_df" where
  "clean_trading_data strp epoch df0 =
     (let df = set_datetime strp epoch df0;
          df = df\<lparr>rows := filter (\<lambda>r. Side r \<noteq> None) (rows df)\<rparr>;
          df = df\<lparr>rows := sort_values_datetime (rows df)\<rparr>
      in set_date df)"

section \<open>Series merger\<close>

text \<open>\<open>pd.merge(how='left', on='date')\<close>: every trade row, once for each sentiment row
  of its date, or once with null sentiment when there is none.\<close>

definition with_sentiment :: "trade \<Rightarrow> real option \<Rightarrow> string option \<Rightarrow> merged" where
  "with_sentiment t v c = trade.extend t (merged.fields v c)"

definition merge_left :: "trade list \<Rightarrow> fear_greed list \<Rightarrow> merged list" where
  "merge_left ts fg =
     concat (map (\<lambda>t.
       case filter (\<lambda>g. date t = Some (fg_date g)) fg of
         [] \<Rightarrow> [with_sentiment t None None]
       | gs \<Rightarrow> map (\<lambda>g. with_sentiment t (fg_value g) (classification g)) gs) ts)"

datatype error = Exception string | ValueError string

text \<open>
  \<open>TradingAnalyzer._merge_by_date\<close>. A date column that holds rows and no date at all
  is a column of \<open>NaT\<close>, which pandas types \<open>datetime64\<close>; the key of the sentiment
  table is a column of date objects, and \<open>pd.merge\<close> refuses to join the two with a
  \<open>ValueError\<close>. pandas skips that check when one of the two tables is empty.
\<close>

definition merge_by_date ::
  "(string \<Rightarrow> datetime option) \<Rightarrow> (real \<Rightarrow> datetime option) \<Rightarrow>
   fear_greed list \<Rightarrow> trading_df \<Rightarrow> error + merged list" where
  "merge_by_date strp epoch fg_df trading_data =
     (let trading_df =
            (if ''date'' \<notin> set (columns trading_data)
             then set_date (set_datetime strp epoch trading_data)
             else trading_data)
      in if rows trading_df \<noteq> [] \<and> notna (map date (rows trading_df)) = [] \<and> fg_df \<noteq> []
         then Inl (ValueError ''You are trying to merge on datetime64[ns] and object columns'')
         else Inr (merge_left (rows trading_df) fg_df))"

text \<open>
  \<open>DataProcessor.merge_datasets\<close>: each table may be absent (\<open>None\<close>), and then the
  method raises. With both tables loaded it calls \<open>pd.merge\<close> on a trading key converted
  to \<open>datetime64\<close> (line 111) and a sentiment key of date objects (line 107); what
  pandas does with these two keys is the parameter \<open>pd_merge\<close>.
\<close>

record data_processor =
  fear_greed_data :: "fear_greed list option"
  trading_data :: "trading_df option"

definition merge_datasets ::
  "(trade list \<Rightarrow> fear_greed list \<Rightarrow> error + merged list) \<Rightarrow> data_processor
     \<Rightarrow> error + merged list" where
  "merge_datasets pd_merge self =
     (case (fear_greed_data self, trading_data self) of
        (Some fg, Some td) \<Rightarrow> pd_merge (rows td) fg
      | _ \<Rightarrow> Inl (Exception ''Both datasets must be loaded before merging''))"

section \<open>Daily aggregator\<close>

text \<open>
  \<open>groupby('date')\<close>: one group for each date that occurs, in ascending order of the
  date; rows whose date is null are in no group.
\<close>

definition group_keys :: "merged list \<Rightarrow> date list" where
  "group_keys m = sort (remdups (List.map_filter date m))"

definition group_of :: "date \<Rightarrow> merged list \<Rightarrow> merged list" where
  "group_of d m = filter (\<lambda>r. date r = Some d) m"

definition count_buy :: "merged list \<Rightarrow> nat" where
  "count_buy g = length (filter (\<lambda>r. Side r = Some ''BUY'') g)"

definition count_win :: "merged list \<Rightarrow> nat" where
  "count_win g =
     length (filter (\<lambda>r. case Closed_PnL r of None \<Rightarrow> False | Some p \<Rightarrow> p > 0) g)"

record daily_agg =
  date_daily :: date
  total_pnl :: real
  avg_pnl :: "real option"
  trade_count :: nat
  total_volume :: real
  avg_volume :: "real option"
  sentiment_score_daily :: "real option"
  sentiment_category_daily :: "string option"
  buy_count :: nat
  total_fees :: real
  sell_count :: int
  buy_ratio :: npfloat
  win_trades :: nat
  win_rate :: npfloat

record daily = daily_agg +
  pnl_std :: "real option"
  cumulative_pnl :: real

text \<open>The row of one group: the reductions of lines 131 to 151 of
  \<open>data_processor.py\<close> (65 to 89 of \<open>analysis.py\<close>).\<close>

definition daily_agg_row :: "date \<Rightarrow> merged list \<Rightarrow> daily_agg" where
  "daily_agg_row d g =
     (let count = series_count (map Closed_PnL g);
          buys = count_buy g;
          wins = count_win g
      in \<lparr>date_daily = d,
          total_pnl = series_sum (map Closed_PnL g),
          avg_pnl = series_mean (map Closed_PnL g),
          trade_count = count,
          total_volume = series_sum (map Size_USD g),
          avg_volume = series_mean (map Size_USD g),
          sentiment_score_daily = first_valid (map sentiment_score g),
          sentiment_category_daily = first_valid (map sentiment_category g),
          buy_count = buys,
          total_fees = series_sum (map Fee g),
          sell_count = int count - int buys,
          buy_ratio = np_div (real buys) (real count),
          win_trades = wins,
          win_rate = np_times (np_div (real wins) (real count)) 100\<rparr>)"

text \<open>\<open>DataProcessor.get_daily_aggregates\<close>.\<close>

definition get_daily_aggregates :: "merged list \<Rightarrow> daily_agg list" where
  "get_daily_aggregates merged_df =
     map (\<lambda>d. daily_agg_row d (group_of d merged_df)) (group_keys merged_df)"

text \<open>\<open>TradingAnalyzer._create_daily_aggregates\<close>: the same rows with the standard
  deviation of the day, the running sum of \<open>total_pnl\<close>, and the sentiment columns
  forward-filled.\<close>

definition create_daily_aggregates :: "merged list option \<Rightarrow> daily list option" where
  "create_daily_aggregates merged_data =
     (case merged_data of
        None \<Rightarrow> None
      | Some m \<Rightarrow>
          (let ks = group_keys m;
               agg = map (\<lambda>d. daily_agg_row d (group_of d m)) ks;
               std = map (\<lambda>d. series_std (map Closed_PnL (group_of d m))) ks;
               cum = cumsum (map total_pnl agg);
               score = ffill (map sentiment_score_daily agg);
               category = ffill (map sentiment_category_daily agg)
           in Some (map (\<lambda>i. daily_agg.extend
                        ((agg ! i)\<lparr>sentiment_score_daily := score ! i,
                                   sentiment_category_daily := category ! i\<rparr>)
                        (daily.fields (std ! i) (cum ! i)))
                     [0..<length ks])))"

text \<open>
  \<open>TradingAnalyzer._prepare_data\<close>, run by the constructor: the daily table of the
  analyzer, or the exception that the merge raises.
\<close>

definition prepare_data ::
  "(string \<Rightarrow> datetime option) \<Rightarrow> (real \<Rightarrow> datetime option) \<Rightarrow>
   fear_greed list \<Rightarrow> trading_df \<Rightarrow> error + daily list option" where
  "prepare_data strp epoch fg_df td =
     (case merge_by_date strp epoch fg_df td of
        Inl e \<Rightarrow> Inl e
      | Inr m \<Rightarrow> Inr (create_daily_aggregates (Some m)))"


section \<open>Correlation engine\<close>

text \<open>
  \<open>np.corrcoef\<close> on two columns of the same length: the covariance over the product of
  the standard deviations, clipped to \<open>[-1, 1]\<close>; \<open>NaN\<close> (here \<open>None\<close>) below two points
  and when one column has no variance.
\<close>

definition pearson :: "real list \<Rightarrow> real list \<Rightarrow> real option" where
  "pearson xs ys =
     (if length xs < 2 then None
      else let mx = sum_list xs / real (length xs);
               my = sum_list ys / real (length ys);
               cxy = sum_list (map (\<lambda>(x, y). (x - mx) * (y - my)) (zip xs ys));
               vx = sum_list (map (\<lambda>x. (x - mx)\<^sup>2) xs);
               vy = sum_list (map (\<lambda>y. (y - my)\<^sup>2) ys)
           in if vx = 0 \<or> vy = 0 then None
              else Some (max (-1) (min 1 (cxy / (sqrt vx * sqrt vy)))))"

text \<open>\<open>Series.corr\<close>: the pairs with a null cell are dropped first.\<close>

definition valid_pairs :: "real option list \<Rightarrow> real option list \<Rightarrow> (real \<times> real) list" where
  "valid_pairs a b =
     List.map_filter (\<lambda>(x, y). case (x, y) of (Some u, Some v) \<Rightarrow> Some (u, v) | _ \<Rightarrow> None)
       (zip a b)"

definition series_corr :: "real option list \<Rightarrow> real option list \<Rightarrow> real option" where
  "series_corr a b = (let ps = valid_pairs a b in pearson (map fst ps) (map snd ps))"

text \<open>A column of quotients as a nullable column: \<open>NaN\<close> is the null cell.\<close>

fun as_cell :: "npfloat \<Rightarrow> real option" where
  "as_cell (Fin x) = Some x"
| "as_cell _ = None"

text \<open>\<open>dropna(subset=['sentiment_score'])\<close> on the daily table.\<close>

definition clean_data :: "daily list \<Rightarrow> daily list" where
  "clean_data daily_data = filter (\<lambda>r. sentiment_score_daily r \<noteq> None) daily_data"

text \<open>
  \<open>TradingAnalyzer.calculate_sentiment_trading_correlations\<close>. The dictionary is an
  association list; a value is a number or \<open>NaN\<close> (\<open>None\<close>).
\<close>

definition calculate_sentiment_trading_correlations ::
  "daily list option \<Rightarrow> (string \<times> real option) list" where
  "calculate_sentiment_trading_correlations daily_data =
     (case daily_data of
        None \<Rightarrow> []
      | Some d \<Rightarrow>
          (let c = clean_data d
           in if length c = 0 then
                [(''sentiment_pnl'', Some 0), (''sentiment_volume'', Some 0),
                 (''sentiment_trades'', Some 0), (''sentiment_winrate'', Some 0)]
              else
                [(''sentiment_pnl'',
                    series_corr (map sentiment_score_daily c) (map (\<lambda>r. Some (total_pnl r)) c)),
                 (''sentiment_volume'',
                    series_corr (map sentiment_score_daily c) (map (\<lambda>r. Some (total_volume r)) c)),
                 (''sentiment_trades'',
                    series_corr (map sentiment_score_daily c)
                      (map (\<lambda>r. Some (real (trade_count r))) c)),
                 (''sentiment_winrate'',
                    series_corr (map sentiment_score_daily c) (map (\<lambda>r. as_cell (win_rate r)) c))]))"

section \<open>Metrics engine\<close>

text \<open>
  The two risk metrics are called on the column \<open>total_pnl\<close> of the daily table and on
  its running sum, which hold no null cell: a series is a list of reals.

  The Sharpe ratio is float64 arithmetic, and whether a standard deviation is exactly 0
  depends on the rounding. The operations of pandas and numpy on float64 values are
  parameters: the subtraction, the division, the multiplication, the square root, the
  mean of a series and the sample standard deviation of a series of two cells or more.
  What does not depend on the rounding is written out: an operation on \<open>NaN\<close> gives
  \<open>NaN\<close>, and the sample standard deviation of fewer than two cells is \<open>NaN\<close>.
\<close>

record float64_ops =
  f_sub :: "npfloat \<Rightarrow> npfloat \<Rightarrow> npfloat"
  f_div :: "npfloat \<Rightarrow> npfloat \<Rightarrow> npfloat"
  f_mul :: "npfloat \<Rightarrow> npfloat \<Rightarrow> npfloat"
  f_sqrt :: "npfloat \<Rightarrow> npfloat"
  f_mean :: "npfloat list \<Rightarrow> npfloat"
  f_std :: "npfloat list \<Rightarrow> npfloat"

definition nan_op ::
  "(npfloat \<Rightarrow> npfloat \<Rightarrow> npfloat) \<Rightarrow> npfloat \<Rightarrow> npfloat \<Rightarrow> npfloat" where
  "nan_op f a b = (if a = NaN \<or> b = NaN then NaN else f a b)"

definition series_std_f :: "float64_ops \<Rightarrow> npfloat list \<Rightarrow> npfloat" where
  "series_std_f ops xs = (if length xs < 2 then NaN else f_std ops xs)"

definition calculate_sharpe_ratio :: "float64_ops \<Rightarrow> real list \<Rightarrow> real \<Rightarrow> npfloat" where
  "calculate_sharpe_ratio ops returns risk_free_rate =
     (if length returns = 0 \<or> series_std_f ops (map Fin returns) = Fin 0 then Fin 0
      else let excess_returns =
                 map (\<lambda>r. f_sub ops (Fin r) (f_div ops (Fin risk_free_rate) (Fin 252))) returns
           in nan_op (f_mul ops)
                (nan_op (f_div ops) (f_mean ops excess_returns)
                   (series_std_f ops (map Fin returns)))
                (f_sqrt ops (Fin 252)))"

definition default_risk_free_rate :: real where
  "default_risk_free_rate = 0.02"

text \<open>\<open>expanding().max()\<close>: the maximum of the cells up to each position.\<close>

fun expanding_max_from :: "real \<Rightarrow> real list \<Rightarrow> real list" where
  "expanding_max_from m [] = []"
| "expanding_max_from m (x # xs) = max m x # expanding_max_from (max m x) xs"

fun expanding_max :: "real list \<Rightarrow> real list" where
  "expanding_max [] = []"
| "expanding_max (x # xs) = x # expanding_max_from x xs"

definition drawdown :: "real list \<Rightarrow> real list" where
  "drawdown cumulative_returns =
     map (\<lambda>(c, m). c - m) (zip cumulative_returns (expanding_max cumulative_returns))"

definition calculate_max_drawdown :: "real list \<Rightarrow> real" where
  "calculate_max_drawdown cumulative_returns =
     (if length cumulative_returns = 0 then 0
      else Min (set (drawdown cumulative_returns)))"

section \<open>Rolling correlation\<close>

text \<open>
  A series is a list of cells with their index labels. The window is a Python number.
  \<open>Series.rolling(window)\<close> refuses a window that is not an integer or is negative
  with a \<open>ValueError\<close>; the correlation of the rolling windows itself, with the
  alignment of the two indexes, is pandas' and is the parameter \<open>pd_rolling_corr\<close>.
\<close>

type_synonym 'i series = "('i \<times> real option) list"

datatype py_number = PyInt int | PyFloat real

fun len_less :: "nat \<Rightarrow> py_number \<Rightarrow> bool" where
  "len_less n (PyInt w) = (int n < w)"
| "len_less n (PyFloat w) = (real n < w)"

fun valid_window :: "py_number \<Rightarrow> bool" where
  "valid_window (PyInt w) = (0 \<le> w)"
| "valid_window (PyFloat w) = False"

fun window_size :: "py_number \<Rightarrow> nat" where
  "window_size (PyInt w) = nat w"
| "window_size (PyFloat w) = 0"

definition rolling_corr ::
  "('i series \<Rightarrow> 'i series \<Rightarrow> nat \<Rightarrow> error + 'i series) \<Rightarrow>
   'i series \<Rightarrow> 'i series \<Rightarrow> py_number \<Rightarrow> error + 'i series" where
  "rolling_corr pd_rolling_corr s1 s2 window =
     (if valid_window window then pd_rolling_corr s1 s2 (window_size window)
      else Inl (ValueError ''window must be an integer 0 or greater''))"

text \<open>\<open>rolling_correlation\<close> of \<open>utils.py\<close>.\<close>

definition rolling_correlation ::
  "('i series \<Rightarrow> 'i series \<Rightarrow> nat \<Rightarrow> error + 'i series) \<Rightarrow>
   'i series \<Rightarrow> 'i series \<Rightarrow> py_number \<Rightarrow> error + 'i series" where
  "rolling_correlation pd_rolling_corr series1 series2 window =
     (if length series1 \<noteq> length series2
      then Inl (ValueError ''Series must have the same length'')
      else if len_less (length series1) window
      then Inr (map (\<lambda>(i, c). (i, None)) series1)
      else rolling_corr pd_rolling_corr series1 series2 window)"

section \<open>The precedence of the calendar alignment, in the words of the specification\<close>

text \<open>
  The day of a row as the specification words it: from the local-time string column when
  the table has one, otherwise from the epoch-seconds column when the table has one,
  otherwise the fixed date 2024-12-02; null when the cell is null or does not parse.
\<close>

definition derived_day ::
  "(string \<Rightarrow> datetime option) \<Rightarrow> (real \<Rightarrow> datetime option) \<Rightarrow> string list
     \<Rightarrow> 'a trade_scheme \<Rightarrow> date option" where
  "derived_day strp epoch cols r =
     (if ''Timestamp IST'' \<in> set cols then
        (case Timestamp_IST r of
           None \<Rightarrow> None
         | Some s \<Rightarrow> (case strp s of None \<Rightarrow> None | Some t \<Rightarrow> Some (fst t)))
      else if ''Timestamp'' \<in> set cols then
        (case Timestamp r of
           None \<Rightarrow> None
         | Some x \<Rightarrow> (case epoch x of None \<Rightarrow> None | Some t \<Rightarrow> Some (fst t)))
      else Some (2024, 12, 2))"

section \<open>Example tables\<close>

text \<open>
  The scenario of one sentiment record and one trade on the same day, as the loader
  hands it over (the \<open>date\<close> column is there, so no timestamp is parsed).
\<close>

definition no_datetime :: "'a \<Rightarrow> datetime option" where
  "no_datetime x = None"

definition single_trade :: trading_df where
  "single_trade =
     \<lparr>columns = [''Account'', ''Side'', ''Closed PnL'', ''Size USD'', ''Fee'', ''datetime'', ''date''],
      rows = [\<lparr>Timestamp_IST = None, Timestamp = None, datetime = Some ((2024, 12, 2), 0),
               date = Some (2024, 12, 2), Side = Some ''BUY'', Closed_PnL = Some 10,
               Size_USD = Some 100, Fee = Some 1\<rparr>]\<rparr>"

definition single_sentiment :: "fear_greed list" where
  "single_sentiment =
     [\<lparr>fg_date = (2024, 12, 2), fg_value = Some 15, classification = Some ''Extreme Fear''\<rparr>]"

text \<open>
  Trades on two days with a sentiment record for the first day only; a table with a row
  whose \<open>Closed PnL\<close> is null.
\<close>

definition two_day_trades :: trading_df where
  "two_day_trades =
     \<lparr>columns = [''Account'', ''Side'', ''Closed PnL'', ''Size USD'', ''Fee'', ''datetime'', ''date''],
      rows = [\<lparr>Timestamp_IST = None, Timestamp = None, datetime = Some ((2024, 12, 3), 0),
               date = Some (2024, 12, 3), Side = Some ''SELL'', Closed_PnL = Some (- 4),
               Size_USD = Some 50, Fee = Some 1\<rparr>,
              \<lparr>Timestamp_IST = None, Timestamp = None, datetime = Some ((2024, 12, 2), 0),
               date = Some (2024, 12, 2), Side = Some ''BUY'', Closed_PnL = Some 10,
               Size_USD = Some 100, Fee = Some 1\<rparr>]\<rparr>"

definition first_day_sentiment :: "fear_greed list" where
  "first_day_sentiment =
     [\<lparr>fg_date = (2024, 12, 2), fg_value = Some 20, classification = Some ''Fear''\<rparr>]"

definition null_pnl_trades :: trading_df where
  "null_pnl_trades =
     \<lparr>columns = [''Account'', ''Side'', ''Execution Price'', ''Closed PnL'', ''Size USD'', ''Fee'',
                 ''datetime'', ''date''],
      rows = [\<lparr>Timestamp_IST = None, Timestamp = None, datetime = Some ((2024, 12, 2), 0),
               date = Some (2024, 12, 2), Side = Some ''BUY'', Closed_PnL = Some 10,
               Size_USD = Some 100, Fee = Some 1\<rparr>,
              \<lparr>Timestamp_IST = None, Timestamp = None, datetime = Some ((2024, 12, 2), 0),
               date = Some (2024, 12, 2), Side = Some ''BUY'', Closed_PnL = None,
               Size_USD = Some 50, Fee = Some 1\<rparr>]\<rparr>"

text \<open>
  Raw tables, before any date is derived: with both timestamp columns, with the epoch
  column only, and with neither. The two parsers stand for \<open>pd.to_datetime\<close> on the
  cells of these tables.
\<close>

definition strp_example :: "string \<Rightarrow> datetime option" where
  "strp_example s =
     (if s = ''02-12-2024 10:30'' then Some ((2024, 12, 2), 37800000000000) else None)"

definition epoch_example :: "real \<Rightarrow> datetime option" where
  "epoch_example x =
     (if x = 1733135400 then Some ((2024, 12, 2), 37800000000000) else None)"

definition raw_ist_trades :: trading_df where
  "raw_ist_trades =
     \<lparr>columns = [''Account'', ''Side'', ''Execution Price'', ''Closed PnL'', ''Size USD'', ''Fee'',
                 ''Timestamp IST'', ''Timestamp''],
      rows = [\<lparr>Timestamp_IST = Some ''yesterday'', Timestamp = Some 1733135400, datetime = None,
               date = None, Side = Some ''SELL'', Closed_PnL = Some 5,
               Size_USD = Some 50, Fee = Some 1\<rparr>,
              \<lparr>Timestamp_IST = Some ''02-12-2024 10:30'', Timestamp = Some 1733135400,
               datetime = None, date = None, Side = Some ''BUY'', Closed_PnL = Some 10,
               Size_USD = Some 100, Fee = Some 1\<rparr>]\<rparr>"

definition raw_epoch_trades :: trading_df where
  "raw_epoch_trades =
     \<lparr>columns = [''Account'', ''Side'', ''Execution Price'', ''Closed PnL'', ''Size USD'', ''Fee'',
                 ''Timestamp''],
      rows = [\<lparr>Timestamp_IST = None, Timestamp = Some 1733135400,
               datetime = None, date = None, Side = Some ''BUY'', Closed_PnL = Some 10,
               Size_USD = Some 100, Fee = Some 1\<rparr>]\<rparr>"

definition raw_untimed_trades :: trading_df where
  "raw_untimed_trades =
     \<lparr>columns = [''Account'', ''Side'', ''Execution Price'', ''Closed PnL'', ''Size USD'', ''Fee''],
      rows = [\<lparr>Timestamp_IST = None, Timestamp = None,
               datetime = None, date = None, Side = Some ''BUY'', Closed_PnL = Some 10,
               Size_USD = Some 100, Fee = Some 1\<rparr>]\<rparr>"

text \<open>
  A raw table whose only timestamp does not parse.
\<close>

definition raw_unparsed_trades :: trading_df where
  "raw_unparsed_trades =
     \<lparr>columns = [''Account'', ''Side'', ''Execution Price'', ''Closed PnL'', ''Size USD'', ''Fee'',
                 ''Timestamp IST''],
      rows = [\<lparr>Timestamp_IST = Some ''yesterday'', Timestamp = None, datetime = None,
               date = None, Side = Some ''BUY'', Closed_PnL = Some 10,
               Size_USD = Some 100, Fee = Some 1\<rparr>]\<rparr>"

text \<open>
  Trades on three days, as the loader hands them over, with sentiment records for the
  first two days only.
\<close>

definition three_day_trades :: trading_df where
  "three_day_trades =
     \<lparr>columns = [''Account'', ''Side'', ''Closed PnL'', ''Size USD'', ''Fee'', ''datetime'', ''date''],
      rows = [\<lparr>Timestamp_IST = None, Timestamp = None, datetime = Some ((2024, 12, 2), 0),
               date = Some (2024, 12, 2), Side = Some ''BUY'', Closed_PnL = Some 30,
               Size_USD = Some 300, Fee = Some 1\<rparr>,
              \<lparr>Timestamp_IST = None, Timestamp = None, datetime = Some ((2024, 12, 3), 0),
               date = Some (2024, 12, 3), Side = Some ''BUY'', Closed_PnL = Some 50,
               Size_USD = Some 320, Fee = Some 1\<rparr>,
              \<lparr>Timestamp_IST = None, Timestamp = None, datetime = Some ((2024, 12, 4), 0),
               date = Some (2024, 12, 4), Side = Some ''BUY'', Closed_PnL = Some 10,
               Size_USD = Some 280, Fee = Some 1\<rparr>]\<rparr>"

definition two_day_sentiment :: "fear_greed list" where
  "two_day_sentiment =
     [\<lparr>fg_date = (2024, 12, 2), fg_value = Some 10, classification = Some ''Extreme Fear''\<rparr>,
      \<lparr>fg_date = (2024, 12, 3), fg_value = Some 40, classification = Some ''Fear''\<rparr>]"

text \<open>
  Instances of the pandas parameters for the examples: a \<open>pd.merge\<close> that refuses its
  keys, a rolling correlation that is all null, and the float operations without
  rounding (an operand that is not finite gives \<open>NaN\<close> here).
\<close>

definition refused_merge :: "trade list \<Rightarrow> fear_greed list \<Rightarrow> error + merged list" where
  "refused_merge ts fg =
     Inl (ValueError ''You are trying to merge on datetime64[ns] and object columns'')"

definition null_rolling :: "nat series \<Rightarrow> nat series \<Rightarrow> nat \<Rightarrow> error + nat series" where
  "null_rolling s1 s2 w = Inr (map (\<lambda>(i, c). (i, None)) s1)"

fun finite_cell :: "npfloat \<Rightarrow> real option" where
  "finite_cell (Fin x) = Some x"
| "finite_cell _ = None"

definition lift_cell :: "real option \<Rightarrow> npfloat" where
  "lift_cell c = (case c of None \<Rightarrow> NaN | Some x \<Rightarrow> Fin x)"

fun exact2 :: "(real \<Rightarrow> real \<Rightarrow> npfloat) \<Rightarrow> npfloat \<Rightarrow> npfloat \<Rightarrow> npfloat" where
  "exact2 f (Fin a) (Fin b) = f a b"
| "exact2 f _ _ = NaN"

definition exact_ops :: float64_ops where
  "exact_ops =
     \<lparr>f_sub = exact2 (\<lambda>a b. Fin (a - b)),
      f_div = exact2 np_div,
      f_mul = exact2 (\<lambda>a b. Fin (a * b)),
      f_sqrt = (\<lambda>a. lift_cell (map_option sqrt (finite_cell a))),
      f_mean = (\<lambda>xs. lift_cell (mean_of (List.map_filter finite_cell xs))),
      f_std = (\<lambda>xs. lift_cell (std_of (List.map_filter finite_cell xs)))\<rparr>"

section \<open>Maximum drawdown\<close>

lemma length_expanding_max_from: "length (expanding_max_from m xs) = length xs"
  by (induction xs arbitrary: m) auto

lemma length_expanding_max: "length (expanding_max xs) = length xs"
  by (cases xs) (auto simp: length_expanding_max_from)

lemma expanding_max_from_nth:
  "i < length xs \<Longrightarrow> expanding_max_from m xs ! i = Max (insert m (set (take (Suc i) xs)))"
proof (induction xs arbitrary: m i)
  case Nil
  then show ?case by simp
next
  case (Cons x xs)
  show ?case
  proof (cases i)
    case 0
    then show ?thesis by (simp add: max.commute)
  next
    case (Suc k)
    with Cons.prems have k: "k < length xs" by simp
    have "expanding_max_from m (x # xs) ! i = Max (insert (max m x) (set (take (Suc k) xs)))"
      using Cons.IH [OF k] Suc by simp
    also have "\<dots> = Max (insert m (insert x (set (take (Suc k) xs))))"
    proof -
      have "set (take (Suc k) xs) \<noteq> {}" using k by (cases xs) auto
      then show ?thesis by (simp add: max.assoc)
    qed
    finally show ?thesis using Suc by simp
  qed
qed

lemma expanding_max_nth:
  assumes i: "i < length xs"
  shows "expanding_max xs ! i = Max (set (take (Suc i) xs))"
proof (cases xs)
  case Nil
  then show ?thesis using i by simp
next
  case (Cons x ys)
  show ?thesis
  proof (cases i)
    case 0
    then show ?thesis using Cons by simp
  next
    case (Suc k)
    with i Cons have k: "k < length ys" by simp
    show ?thesis using expanding_max_from_nth [OF k, of x] Cons Suc by simp
  qed
qed

lemma drawdown_nth:
  "i < length cs \<Longrightarrow> drawdown cs ! i = cs ! i - Max (set (take (Suc i) cs))"
  by (simp add: drawdown_def length_expanding_max expanding_max_nth)

lemma length_drawdown: "length (drawdown cs) = length cs"
  by (simp add: drawdown_def length_expanding_max)

lemma set_drawdown:
  "set (drawdown cs) = (\<lambda>i. cs ! i - Max (set (take (Suc i) cs))) ` {..<length cs}"
proof -
  have "set (drawdown cs) = (\<lambda>i. drawdown cs ! i) ` {..<length (drawdown cs)}"
    by (auto simp: set_conv_nth)
  also have "\<dots> = (\<lambda>i. cs ! i - Max (set (take (Suc i) cs))) ` {..<length cs}"
    by (auto simp: length_drawdown drawdown_nth intro!: image_cong)
  finally show ?thesis .
qed

lemma drawdown_nonpos:
  fixes cs :: "real list"
  assumes i: "i < length cs"
  shows "cs ! i - Max (set (take (Suc i) cs)) \<le> 0"
proof -
  have "cs ! i \<in> set (take (Suc i) cs)"
    using i by (metis lessI nth_take in_set_conv_nth length_take min_less_iff_conj)
  then have "cs ! i \<le> Max (set (take (Suc i) cs))" by simp
  then show ?thesis by simp
qed

lemma prefix_max_le_iff:
  fixes cs :: "real list"
  assumes i: "i < length cs"
  shows "(Max (set (take (Suc i) cs)) \<le> cs ! i) = (\<forall>j\<le>i. cs ! j \<le> cs ! i)"
proof -
  have ne: "set (take (Suc i) cs) \<noteq> {}" using i by (cases cs) auto
  have "(Max (set (take (Suc i) cs)) \<le> cs ! i) = (\<forall>a\<in>set (take (Suc i) cs). a \<le> cs ! i)"
    using ne by (simp add: Max_le_iff)
  also have "\<dots> = (\<forall>j\<le>i. cs ! j \<le> cs ! i)"
  proof -
    have "set (take (Suc i) cs) = nth cs ` {0..<Suc i}"
      using i nth_image [of "Suc i" cs] by simp
    then show ?thesis by (auto simp: less_Suc_eq_le)
  qed
  finally show ?thesis .
qed

text \<open>
  Claim C7. \<open>calculate_max_drawdown\<close> returns 0 for the empty series. For a series that
  is not empty it returns the least value of \<open>cumulative - running_max(cumulative)\<close>,
  the running maximum at \<open>i\<close> being the greatest of the cells \<open>0 .. i\<close>. The result is never
  positive, and it is 0 exactly when no cell lies below an earlier one.
\<close>

theorem max_drawdown_spec:
  "calculate_max_drawdown [] = 0
   \<and> (cs \<noteq> [] \<longrightarrow> calculate_max_drawdown cs
         = Min ((\<lambda>i. cs ! i - Max (set (take (Suc i) cs))) ` {..<length cs}))
   \<and> calculate_max_drawdown cs \<le> 0
   \<and> ((calculate_max_drawdown cs = 0) = (\<forall>i<length cs. \<forall>j\<le>i. cs ! j \<le> cs ! i))"
proof -
  let ?D = "(\<lambda>i. cs ! i - Max (set (take (Suc i) cs))) ` {..<length cs}"
  have empty: "calculate_max_drawdown [] = 0" by (simp add: calculate_max_drawdown_def)
  have eq: "cs \<noteq> [] \<Longrightarrow> calculate_max_drawdown cs = Min ?D"
    by (simp add: calculate_max_drawdown_def set_drawdown)
  have le: "calculate_max_drawdown cs \<le> 0"
  proof (cases "cs = []")
    case True
    then show ?thesis by (simp add: calculate_max_drawdown_def)
  next
    case False
    then have "0 < length cs" by simp
    then have "cs ! 0 - Max (set (take (Suc 0) cs)) \<in> ?D" by blast
    moreover have "cs ! 0 - Max (set (take (Suc 0) cs)) \<le> 0"
      using False drawdown_nonpos [of 0 cs] by simp
    ultimately have "Min ?D \<le> 0"
      by (meson Min_le finite_imageI finite_lessThan order_trans)
    then show ?thesis using False by (simp add: calculate_max_drawdown_def set_drawdown)
  qed
  have zero: "(calculate_max_drawdown cs = 0) = (\<forall>i<length cs. \<forall>j\<le>i. cs ! j \<le> cs ! i)"
  proof (cases "cs = []")
    case True
    then show ?thesis by (simp add: calculate_max_drawdown_def)
  next
    case False
    then have ne: "?D \<noteq> {}" by (simp add: lessThan_empty_iff)
    have fin: "finite ?D" by simp
    have "(calculate_max_drawdown cs = 0) = (0 \<le> Min ?D)"
      using le False by (auto simp: calculate_max_drawdown_def set_drawdown)
    also have "\<dots> = (\<forall>a\<in>?D. 0 \<le> a)"
      using Min_ge_iff [OF fin ne] by simp
    also have "\<dots> = (\<forall>i<length cs. Max (set (take (Suc i) cs)) \<le> cs ! i)"
      by auto
    also have "\<dots> = (\<forall>i<length cs. \<forall>j\<le>i. cs ! j \<le> cs ! i)"
      using prefix_max_le_iff by blast
    finally show ?thesis .
  qed
  from empty eq le zero show ?thesis by blast
qed

theorem max_drawdown_spec_witness:
  "[1, 3, 2 :: real] \<noteq> []
   \<and> calculate_max_drawdown [1, 3, 2]
       = Min ((\<lambda>i. [1, 3, 2 :: real] ! i - Max (set (take (Suc i) [1, 3, 2]))) ` {..<length [1, 3, 2 :: real]})
   \<and> calculate_max_drawdown [1, 3, 2] = -1
   \<and> calculate_max_drawdown [1, 3, 2] \<le> 0
   \<and> \<not> (\<forall>i<length [1, 3, 2 :: real]. \<forall>j\<le>i. [1, 3, 2 :: real] ! j \<le> [1, 3, 2] ! i)"
proof -
  have v: "calculate_max_drawdown [1, 3, 2] = -1"
    by (simp add: calculate_max_drawdown_def drawdown_def)
  show ?thesis
    using max_drawdown_spec [of "[1, 3, 2]"] v by simp
qed

section \<open>Sharpe ratio\<close>

lemma sum_list_const:
  fixes c :: real
  shows "\<forall>x\<in>set xs. x = c \<Longrightarrow> sum_list xs = real (length xs) * c"
  by (induction xs) (auto simp: algebra_simps)

lemma sum_sq_zero_iff:
  fixes mu :: real
  shows "(sum_list (map (\<lambda>v. (v - mu)\<^sup>2) xs) = 0) = (\<forall>x\<in>set xs. x = mu)"
proof -
  have "(sum_list (map (\<lambda>v. (v - mu)\<^sup>2) xs) = 0)
        = (\<forall>y\<in>set (map (\<lambda>v. (v - mu)\<^sup>2) xs). y = 0)"
    by (rule sum_list_nonneg_eq_0_iff) auto
  then show ?thesis by auto
qed

lemma std_of_zero_iff:
  "(std_of xs = Some 0) = (2 \<le> length xs \<and> (\<forall>x\<in>set xs. \<forall>y\<in>set xs. x = y))"
proof (cases "length xs < 2")
  case True
  then show ?thesis by (simp add: std_of_def)
next
  case False
  let ?mu = "sum_list xs / real (length xs)"
  from False have n: "2 \<le> length xs" by simp
  then have pos: "0 < real (length xs - 1)" by simp
  have "(std_of xs = Some 0) = (sum_list (map (\<lambda>v. (v - ?mu)\<^sup>2) xs) = 0)"
    using False pos by (simp add: std_of_def Let_def)
  also have "\<dots> = (\<forall>x\<in>set xs. x = ?mu)" by (rule sum_sq_zero_iff)
  also have "\<dots> = (\<forall>x\<in>set xs. \<forall>y\<in>set xs. x = y)"
  proof
    assume "\<forall>x\<in>set xs. x = ?mu"
    then show "\<forall>x\<in>set xs. \<forall>y\<in>set xs. x = y" by metis
  next
    assume c: "\<forall>x\<in>set xs. \<forall>y\<in>set xs. x = y"
    from n obtain a where a: "a \<in> set xs" by (cases xs) auto
    with c have all: "\<forall>x\<in>set xs. x = a" by blast
    then have "sum_list xs = real (length xs) * a" by (rule sum_list_const)
    moreover have "real (length xs) \<noteq> 0" using n by auto
    ultimately have "?mu = a" by simp
    with all show "\<forall>x\<in>set xs. x = ?mu" by simp
  qed
  finally show ?thesis using n by simp
qed

lemma series_std_f_short: "length xs < 2 \<Longrightarrow> series_std_f ops xs = NaN"
  by (simp add: series_std_f_def)

lemma series_std_f_long: "2 \<le> length xs \<Longrightarrow> series_std_f ops xs = f_std ops xs"
  by (simp add: series_std_f_def)

text \<open>
  Claim C6, as the code has it. \<open>calculate_sharpe_ratio\<close> returns 0 for the empty series
  and for every series whose sample standard deviation, as pandas computes it, is
  exactly 0. The sample standard deviation of a single cell is \<open>NaN\<close>, the guard
  \<open>returns.std() == 0\<close> does not hold for it, and the result is \<open>NaN\<close>. For every other
  series the result is \<open>mean(r - rf / 252) / std(r) * sqrt(252)\<close> in float64; the default
  rate is 0.02. The statement holds whatever the rounding of the operations is.
\<close>

theorem sharpe_ratio_spec:
  "calculate_sharpe_ratio ops [] rf = Fin 0
   \<and> (2 \<le> length xs \<and> f_std ops (map Fin xs) = Fin 0 \<longrightarrow>
        calculate_sharpe_ratio ops xs rf = Fin 0)
   \<and> (length xs = 1 \<longrightarrow> calculate_sharpe_ratio ops xs rf = NaN)
   \<and> (2 \<le> length xs \<and> f_std ops (map Fin xs) \<noteq> Fin 0 \<longrightarrow>
        calculate_sharpe_ratio ops xs rf =
          nan_op (f_mul ops)
            (nan_op (f_div ops)
               (f_mean ops (map (\<lambda>r. f_sub ops (Fin r) (f_div ops (Fin rf) (Fin 252))) xs))
               (f_std ops (map Fin xs)))
            (f_sqrt ops (Fin 252)))
   \<and> default_risk_free_rate = 2 / 100"
proof -
  have e: "calculate_sharpe_ratio ops [] rf = Fin 0"
    by (simp add: calculate_sharpe_ratio_def)
  have z: "2 \<le> length xs \<and> f_std ops (map Fin xs) = Fin 0 \<longrightarrow>
        calculate_sharpe_ratio ops xs rf = Fin 0"
    by (simp add: calculate_sharpe_ratio_def series_std_f_long)
  have s: "length xs = 1 \<longrightarrow> calculate_sharpe_ratio ops xs rf = NaN"
  proof
    assume l: "length xs = 1"
    then have "series_std_f ops (map Fin xs) = NaN" by (simp add: series_std_f_short)
    with l show "calculate_sharpe_ratio ops xs rf = NaN"
      by (simp add: calculate_sharpe_ratio_def nan_op_def Let_def)
  qed
  have f: "2 \<le> length xs \<and> f_std ops (map Fin xs) \<noteq> Fin 0 \<longrightarrow>
        calculate_sharpe_ratio ops xs rf =
          nan_op (f_mul ops)
            (nan_op (f_div ops)
               (f_mean ops (map (\<lambda>r. f_sub ops (Fin r) (f_div ops (Fin rf) (Fin 252))) xs))
               (f_std ops (map Fin xs)))
            (f_sqrt ops (Fin 252))"
  proof
    assume h: "2 \<le> length xs \<and> f_std ops (map Fin xs) \<noteq> Fin 0"
    then have l: "length xs \<noteq> 0" by auto
    from h have "series_std_f ops (map Fin xs) = f_std ops (map Fin xs)"
      by (simp add: series_std_f_long)
    with h l show "calculate_sharpe_ratio ops xs rf =
          nan_op (f_mul ops)
            (nan_op (f_div ops)
               (f_mean ops (map (\<lambda>r. f_sub ops (Fin r) (f_div ops (Fin rf) (Fin 252))) xs))
               (f_std ops (map Fin xs)))
            (f_sqrt ops (Fin 252))"
      by (simp add: calculate_sharpe_ratio_def Let_def)
  qed
  have d: "default_risk_free_rate = 2 / 100" by (simp add: default_risk_free_rate_def)
  from e z s f d show ?thesis by blast
qed

lemma finite_cells_Fin: "List.map_filter finite_cell (map Fin xs) = xs"
  by (induction xs) (simp_all add: List.map_filter_simps)

lemma exact_std: "f_std exact_ops (map Fin xs) = lift_cell (std_of xs)"
  by (simp add: exact_ops_def finite_cells_Fin)

theorem sharpe_ratio_spec_witness:
  "calculate_sharpe_ratio exact_ops [3, 3] default_risk_free_rate = Fin 0
   \<and> calculate_sharpe_ratio exact_ops [7] default_risk_free_rate = NaN
   \<and> f_std exact_ops (map Fin [1, 1, 1, 5]) = Fin 2
   \<and> calculate_sharpe_ratio exact_ops [1, 1, 1, 5] 0 = f_sqrt exact_ops (Fin 252)"
proof -
  have s3: "f_std exact_ops (map Fin [3, 3]) = Fin 0"
    using exact_std [of "[3, 3]"] by (simp add: std_of_def lift_cell_def)
  have a: "calculate_sharpe_ratio exact_ops [3, 3] default_risk_free_rate = Fin 0"
    using sharpe_ratio_spec [of exact_ops default_risk_free_rate "[3, 3]"] s3 by simp
  have b: "calculate_sharpe_ratio exact_ops [7] default_risk_free_rate = NaN"
    using sharpe_ratio_spec [of exact_ops default_risk_free_rate "[7]"] by simp
  have s5: "f_std exact_ops (map Fin [1, 1, 1, 5]) = Fin 2"
    using exact_std [of "[1, 1, 1, 5]"] by (simp add: std_of_def lift_cell_def power2_eq_square)
  have m5: "f_mean exact_ops
              (map (\<lambda>r. f_sub exact_ops (Fin r) (f_div exact_ops (Fin 0) (Fin 252))) [1, 1, 1, 5])
            = Fin 2"
    by (simp add: exact_ops_def np_div_def mean_of_def lift_cell_def List.map_filter_simps)
  have c: "calculate_sharpe_ratio exact_ops [1, 1, 1, 5] 0 = f_sqrt exact_ops (Fin 252)"
    using sharpe_ratio_spec [of exact_ops 0 "[1, 1, 1, 5]"] s5 m5
    by (simp add: nan_op_def exact_ops_def np_div_def lift_cell_def)
  from a b s5 c show ?thesis by blast
qed

text \<open>
  Claim C6 as stated fails on a series of one cell: it is constant, and the result is
  \<open>NaN\<close>, not 0.
\<close>

theorem sharpe_single_point_counterexample:
  "set [5 :: real] = {5} \<and> calculate_sharpe_ratio exact_ops [5] default_risk_free_rate = NaN"
  by (simp add: calculate_sharpe_ratio_def series_std_f_def nan_op_def)

text \<open>
  Without rounding, the standard deviation of a series of two cells or more is 0 exactly
  when the series is constant; float64 rounding can leave it positive for a constant
  series, and then the guard does not hold.
\<close>

lemma exact_std_zero_iff:
  "(f_std exact_ops (map Fin xs) = Fin 0)
     = (2 \<le> length xs \<and> (\<forall>x\<in>set xs. \<forall>y\<in>set xs. x = y))"
  using std_of_zero_iff [of xs]
  by (cases "std_of xs") (simp_all add: exact_std lift_cell_def)

section \<open>Degenerate correlations\<close>

lemma length_valid_pairs: "length (valid_pairs a b) \<le> length a"
  unfolding valid_pairs_def map_filter_def
  by (metis (no_types, lifting) length_filter_le length_map length_zip min.cobounded1 order_trans)

lemma series_corr_single: "length a = 1 \<Longrightarrow> series_corr a b = None"
  using length_valid_pairs [of a b] by (simp add: series_corr_def pearson_def Let_def)

text \<open>
  Claim C3, as the code has it. With no row of known sentiment all four correlations are
  exactly 0. With exactly one such row nothing is raised and each correlation is \<open>NaN\<close>:
  the fallback to 0 is guarded by \<open>len(clean_data) == 0\<close> only, and the Pearson
  coefficient of one point is undefined.
\<close>

theorem correlations_degenerate:
  "(clean_data d = [] \<longrightarrow>
      calculate_sentiment_trading_correlations (Some d) =
        [(''sentiment_pnl'', Some 0), (''sentiment_volume'', Some 0),
         (''sentiment_trades'', Some 0), (''sentiment_winrate'', Some 0)])
   \<and> (length (clean_data d) = 1 \<longrightarrow>
      calculate_sentiment_trading_correlations (Some d) =
        [(''sentiment_pnl'', None), (''sentiment_volume'', None),
         (''sentiment_trades'', None), (''sentiment_winrate'', None)])"
  by (simp add: calculate_sentiment_trading_correlations_def Let_def series_corr_single)

theorem correlations_degenerate_witness:
  "calculate_sentiment_trading_correlations (Some []) =
        [(''sentiment_pnl'', Some 0), (''sentiment_volume'', Some 0),
         (''sentiment_trades'', Some 0), (''sentiment_winrate'', Some 0)]
   \<and> calculate_sentiment_trading_correlations
       (Some [\<lparr>date_daily = (2024, 12, 2), total_pnl = 10, avg_pnl = Some 10, trade_count = 1,
            total_volume = 100, avg_volume = Some 100, sentiment_score_daily = Some 15,
            sentiment_category_daily = Some ''Extreme Fear'', buy_count = 1, total_fees = 1,
            sell_count = 0, buy_ratio = Fin 1, win_trades = 1, win_rate = Fin 100,
            pnl_std = None, cumulative_pnl = 10\<rparr>]) =
        [(''sentiment_pnl'', None), (''sentiment_volume'', None),
         (''sentiment_trades'', None), (''sentiment_winrate'', None)]"
proof -
  have a: "clean_data [] = []" by (simp add: clean_data_def)
  have b: "length (clean_data [\<lparr>date_daily = (2024, 12, 2), total_pnl = 10, avg_pnl = Some 10, trade_count = 1,
            total_volume = 100, avg_volume = Some 100, sentiment_score_daily = Some 15,
            sentiment_category_daily = Some ''Extreme Fear'', buy_count = 1, total_fees = 1,
            sell_count = 0, buy_ratio = Fin 1, win_trades = 1, win_rate = Fin 100,
            pnl_std = None, cumulative_pnl = 10\<rparr>]) = 1" by (simp add: clean_data_def)
  show ?thesis
    using correlations_degenerate [of "[]"] a
      correlations_degenerate [of "[\<lparr>date_daily = (2024, 12, 2), total_pnl = 10, avg_pnl = Some 10, trade_count = 1,
            total_volume = 100, avg_volume = Some 100, sentiment_score_daily = Some 15,
            sentiment_category_daily = Some ''Extreme Fear'', buy_count = 1, total_fees = 1,
            sell_count = 0, buy_ratio = Fin 1, win_trades = 1, win_rate = Fin 100,
            pnl_std = None, cumulative_pnl = 10\<rparr>]"] b
    by blast
qed

lemma single_merged:
  "merge_by_date no_datetime no_datetime single_sentiment single_trade =
     Inr [\<lparr>Timestamp_IST = None, Timestamp = None, datetime = Some ((2024, 12, 2), 0),
       date = Some (2024, 12, 2), Side = Some ''BUY'', Closed_PnL = Some 10,
       Size_USD = Some 100, Fee = Some 1,
       sentiment_score = Some 15, sentiment_category = Some ''Extreme Fear''\<rparr>]"
  by (simp add: merge_by_date_def single_sentiment_def single_trade_def merge_left_def
      with_sentiment_def trade.extend_def merged.fields_def notna_def List.map_filter_simps)

lemma single_daily:
  "prepare_data no_datetime no_datetime single_sentiment single_trade =
     Inr (Some [\<lparr>date_daily = (2024, 12, 2), total_pnl = 10, avg_pnl = Some 10, trade_count = 1,
            total_volume = 100, avg_volume = Some 100, sentiment_score_daily = Some 15,
            sentiment_category_daily = Some ''Extreme Fear'', buy_count = 1, total_fees = 1,
            sell_count = 0, buy_ratio = Fin 1, win_trades = 1, win_rate = Fin 100,
            pnl_std = None, cumulative_pnl = 10\<rparr>])"
  by (simp add: prepare_data_def single_merged create_daily_aggregates_def group_keys_def
      List.map_filter_simps
      ffill_def cumsum_def daily_agg_row_def group_of_def daily_agg.extend_def daily.fields_def
      series_sum_def series_count_def series_mean_def series_std_def mean_of_def std_of_def
      notna_def count_buy_def count_win_def np_div_def Let_def)

text \<open>
  Claim C3 as stated fails on its own scenario, one sentiment record and one trade on the
  same day: the analyzer is built without an exception and the four results are \<open>NaN\<close>,
  not 0.
\<close>

theorem correlations_single_point_counterexample:
  "map_sum id calculate_sentiment_trading_correlations
     (prepare_data no_datetime no_datetime single_sentiment single_trade) =
     Inr [(''sentiment_pnl'', None), (''sentiment_volume'', None),
          (''sentiment_trades'', None), (''sentiment_winrate'', None)]"
  by (simp add: single_daily calculate_sentiment_trading_correlations_def clean_data_def
      series_corr_single)

section \<open>Absent tables\<close>

text \<open>
  Claim C2, as the code has it. \<open>merge_datasets\<close> raises when one of the two tables is
  absent. Without a merged table \<open>_create_daily_aggregates\<close> returns \<open>None\<close>, and without
  a daily table \<open>calculate_sentiment_trading_correlations\<close> returns the empty dictionary.
\<close>

theorem absent_tables:
  "(fear_greed_data self = None \<or> trading_data self = None \<longrightarrow>
      merge_datasets pd_merge self = Inl (Exception ''Both datasets must be loaded before merging''))
   \<and> create_daily_aggregates None = None
   \<and> calculate_sentiment_trading_correlations None = []"
  by (auto simp: merge_datasets_def create_daily_aggregates_def
      calculate_sentiment_trading_correlations_def split: option.splits)

theorem absent_tables_witness:
  "trading_data \<lparr>fear_greed_data = Some single_sentiment, trading_data = None\<rparr> = None
   \<and> isl (merge_datasets refused_merge
            \<lparr>fear_greed_data = Some single_sentiment, trading_data = None\<rparr>)
   \<and> calculate_sentiment_trading_correlations (create_daily_aggregates None) = []"
  using absent_tables
    [of "\<lparr>fear_greed_data = Some single_sentiment, trading_data = None\<rparr>" refused_merge]
  by simp

text \<open>
  Claim C2 as stated fails for merging with no trading data loaded: the method raises.
\<close>

theorem merge_datasets_raises_counterexample:
  "merge_datasets refused_merge \<lparr>fear_greed_data = Some single_sentiment, trading_data = None\<rparr>
     = Inl (Exception ''Both datasets must be loaded before merging'')"
  by (simp add: merge_datasets_def)

section \<open>Rolling correlation raises\<close>

text \<open>
  Claim C10, as the code has it. \<open>rolling_correlation\<close> raises a \<open>ValueError\<close> whenever
  the two series differ in length, whatever the window. For two series of the same length
  that is smaller than the window it returns the cells of the first series, all null,
  without raising. For two series of the same length that is not smaller than the window
  it calls \<open>Series.rolling(window).corr\<close>: it raises a \<open>ValueError\<close> when the window is
  negative or not an integer, and otherwise returns or raises what pandas does.
\<close>

theorem rolling_correlation_raises:
  "(length series1 \<noteq> length series2 \<longrightarrow>
      rolling_correlation pd series1 series2 window
        = Inl (ValueError ''Series must have the same length''))
   \<and> (length series1 = length series2 \<and> len_less (length series1) window \<longrightarrow>
      rolling_correlation pd series1 series2 window = Inr (map (\<lambda>(i, c). (i, None)) series1))
   \<and> (length series1 = length series2 \<and> \<not> len_less (length series1) window
        \<and> \<not> valid_window window \<longrightarrow>
      rolling_correlation pd series1 series2 window
        = Inl (ValueError ''window must be an integer 0 or greater''))
   \<and> (length series1 = length series2 \<and> \<not> len_less (length series1) window
        \<and> valid_window window \<longrightarrow>
      rolling_correlation pd series1 series2 window = pd series1 series2 (window_size window))"
  by (auto simp: rolling_correlation_def rolling_corr_def)

theorem rolling_correlation_raises_witness:
  "rolling_correlation null_rolling [(0, Some 1), (1, Some 2)] [(0, Some 2)] (PyInt 30)
     = Inl (ValueError ''Series must have the same length'')
   \<and> rolling_correlation null_rolling [(0, Some 1), (1, Some 2)] [(0, Some 2), (1, Some 5)]
       (PyInt 30) = Inr [(0, None), (1, None)]
   \<and> rolling_correlation null_rolling [(0, Some 1), (1, Some 2)] [(0, Some 2), (1, Some 5)]
       (PyFloat (3 / 2)) = Inl (ValueError ''window must be an integer 0 or greater'')
   \<and> rolling_correlation null_rolling [(0, Some 1), (1, Some 2)] [(0, Some 2), (1, Some 5)]
       (PyInt 2) = null_rolling [(0, Some 1), (1, Some 2)] [(0, Some 2), (1, Some 5)] 2"
proof -
  have a: "rolling_correlation null_rolling [(0, Some 1), (1, Some 2)] [(0, Some 2)] (PyInt 30)
     = Inl (ValueError ''Series must have the same length'')"
    using rolling_correlation_raises
      [of "[(0, Some 1), (1, Some 2)]" "[(0, Some 2)]" null_rolling "PyInt 30"] by simp
  have b: "rolling_correlation null_rolling [(0, Some 1), (1, Some 2)] [(0, Some 2), (1, Some 5)]
       (PyInt 30) = Inr [(0, None), (1, None)]"
    using rolling_correlation_raises
      [of "[(0, Some 1), (1, Some 2)]" "[(0, Some 2), (1, Some 5)]" null_rolling "PyInt 30"]
    by simp
  have c: "rolling_correlation null_rolling [(0, Some 1), (1, Some 2)] [(0, Some 2), (1, Some 5)]
       (PyFloat (3 / 2)) = Inl (ValueError ''window must be an integer 0 or greater'')"
    using rolling_correlation_raises
      [of "[(0, Some 1), (1, Some 2)]" "[(0, Some 2), (1, Some 5)]" null_rolling "PyFloat (3 / 2)"]
    by simp
  have d: "rolling_correlation null_rolling [(0, Some 1), (1, Some 2)] [(0, Some 2), (1, Some 5)]
       (PyInt 2) = null_rolling [(0, Some 1), (1, Some 2)] [(0, Some 2), (1, Some 5)] 2"
    using rolling_correlation_raises
      [of "[(0, Some 1), (1, Some 2)]" "[(0, Some 2), (1, Some 5)]" null_rolling "PyInt 2"]
    by simp
  from a b c d show ?thesis by blast
qed

text \<open>
  Claim C10 as stated fails for a negative window: the two series have the same length,
  the window is not larger than the length, and \<open>Series.rolling\<close> raises.
\<close>

theorem rolling_correlation_negative_window_counterexample:
  "length [(0 :: nat, Some 1 :: real option)] = length [(0 :: nat, Some 2 :: real option)]
   \<and> rolling_correlation null_rolling [(0, Some 1)] [(0, Some 2)] (PyInt (- 1))
       = Inl (ValueError ''window must be an integer 0 or greater'')"
  by (simp add: rolling_correlation_def rolling_corr_def)

section \<open>Groups of the daily table\<close>

lemma set_map_filter_date:
  "set (List.map_filter date m) = {d. \<exists>r\<in>set m. date r = Some d}"
  by (induction m) (auto simp: List.map_filter_simps split: option.splits)

lemma set_group_keys: "set (group_keys m) = {d. \<exists>r\<in>set m. date r = Some d}"
  by (simp add: group_keys_def set_map_filter_date)

lemma distinct_group_keys: "distinct (group_keys m)"
  by (simp add: group_keys_def)

lemma sorted_group_keys: "sorted_wrt (<) (group_keys m)"
  using distinct_group_keys [of m]
  by (simp add: group_keys_def strict_sorted_iff)

lemma total_pnl_row: "total_pnl (daily_agg_row d g) = series_sum (map Closed_PnL g)"
  by (simp add: daily_agg_row_def Let_def)

lemma create_daily_fields:
  assumes "create_daily_aggregates (Some m) = Some ds"
  shows "length ds = length (group_keys m)"
    and "i < length ds \<Longrightarrow> date_daily (ds ! i) = group_keys m ! i"
    and "i < length ds \<Longrightarrow>
           total_pnl (ds ! i) = series_sum (map Closed_PnL (group_of (group_keys m ! i) m))"
    and "i < length ds \<Longrightarrow>
           cumulative_pnl (ds ! i)
             = cumsum (map (\<lambda>d. series_sum (map Closed_PnL (group_of d m))) (group_keys m)) ! i"
    and "i < length ds \<Longrightarrow>
           sentiment_score_daily (ds ! i)
             = ffill (map (\<lambda>d. first_valid (map sentiment_score (group_of d m))) (group_keys m)) ! i"
proof -
  from assms have ds: "ds = map (\<lambda>i. daily_agg.extend
        ((map (\<lambda>d. daily_agg_row d (group_of d m)) (group_keys m) ! i)
           \<lparr>sentiment_score_daily :=
              ffill (map sentiment_score_daily (map (\<lambda>d. daily_agg_row d (group_of d m)) (group_keys m))) ! i,
            sentiment_category_daily :=
              ffill (map sentiment_category_daily (map (\<lambda>d. daily_agg_row d (group_of d m)) (group_keys m))) ! i\<rparr>)
        (daily.fields (map (\<lambda>d. series_std (map Closed_PnL (group_of d m))) (group_keys m) ! i)
           (cumsum (map total_pnl (map (\<lambda>d. daily_agg_row d (group_of d m)) (group_keys m))) ! i)))
      [0..<length (group_keys m)]"
    by (simp add: create_daily_aggregates_def Let_def)
  show len: "length ds = length (group_keys m)" by (simp add: ds)
  have a: "map total_pnl (map (\<lambda>d. daily_agg_row d (group_of d m)) (group_keys m))
        = map (\<lambda>d. series_sum (map Closed_PnL (group_of d m))) (group_keys m)"
    by (simp add: total_pnl_row comp_def)
  have b: "map sentiment_score_daily (map (\<lambda>d. daily_agg_row d (group_of d m)) (group_keys m))
        = map (\<lambda>d. first_valid (map sentiment_score (group_of d m))) (group_keys m)"
    by (simp add: daily_agg_row_def Let_def comp_def)
  show "i < length ds \<Longrightarrow> date_daily (ds ! i) = group_keys m ! i"
    by (simp add: ds daily_agg.extend_def daily_agg_row_def Let_def)
  show "i < length ds \<Longrightarrow>
           total_pnl (ds ! i) = series_sum (map Closed_PnL (group_of (group_keys m ! i) m))"
    by (simp add: ds daily_agg.extend_def total_pnl_row)
  show "i < length ds \<Longrightarrow>
           cumulative_pnl (ds ! i)
             = cumsum (map (\<lambda>d. series_sum (map Closed_PnL (group_of d m))) (group_keys m)) ! i"
    unfolding a [symmetric] by (simp add: ds daily_agg.extend_def daily.fields_def)
  show "i < length ds \<Longrightarrow>
           sentiment_score_daily (ds ! i)
             = ffill (map (\<lambda>d. first_valid (map sentiment_score (group_of d m))) (group_keys m)) ! i"
    unfolding b [symmetric] by (simp add: ds daily_agg.extend_def)
qed

lemma create_daily_dates:
  assumes "create_daily_aggregates (Some m) = Some ds"
  shows "map date_daily ds = group_keys m"
  using create_daily_fields(1,2) [OF assms] by (auto intro!: nth_equalityI)

lemma create_daily_returns: "\<exists>ds. create_daily_aggregates (Some m) = Some ds"
  by (simp add: create_daily_aggregates_def Let_def)

lemma two_day_merged:
  "merge_by_date no_datetime no_datetime first_day_sentiment two_day_trades =
     Inr [\<lparr>Timestamp_IST = None, Timestamp = None, datetime = Some ((2024, 12, 3), 0),
       date = Some (2024, 12, 3), Side = Some ''SELL'', Closed_PnL = Some (- 4),
       Size_USD = Some 50, Fee = Some 1, sentiment_score = None, sentiment_category = None\<rparr>,
      \<lparr>Timestamp_IST = None, Timestamp = None, datetime = Some ((2024, 12, 2), 0),
       date = Some (2024, 12, 2), Side = Some ''BUY'', Closed_PnL = Some 10,
       Size_USD = Some 100, Fee = Some 1,
       sentiment_score = Some 20, sentiment_category = Some ''Fear''\<rparr>]"
  by (simp add: merge_by_date_def first_day_sentiment_def two_day_trades_def merge_left_def
      with_sentiment_def trade.extend_def merged.fields_def notna_def List.map_filter_simps)

lemma two_day_keys:
  "group_keys
     [\<lparr>Timestamp_IST = None, Timestamp = None, datetime = Some ((2024, 12, 3), 0),
       date = Some (2024, 12, 3), Side = Some ''SELL'', Closed_PnL = Some (- 4),
       Size_USD = Some 50, Fee = Some 1, sentiment_score = None, sentiment_category = None\<rparr>,
      \<lparr>Timestamp_IST = None, Timestamp = None, datetime = Some ((2024, 12, 2), 0),
       date = Some (2024, 12, 2), Side = Some ''BUY'', Closed_PnL = Some 10,
       Size_USD = Some 100, Fee = Some 1,
       sentiment_score = Some 20, sentiment_category = Some ''Fear''\<rparr>]
     = [(2024, 12, 2), (2024, 12, 3)]"
  by (simp add: group_keys_def List.map_filter_simps)

lemma two_day_daily:
  "prepare_data no_datetime no_datetime first_day_sentiment two_day_trades =
     Inr (Some [\<lparr>date_daily = (2024, 12, 2), total_pnl = 10, avg_pnl = Some 10, trade_count = 1,
            total_volume = 100, avg_volume = Some 100, sentiment_score_daily = Some 20,
            sentiment_category_daily = Some ''Fear'', buy_count = 1, total_fees = 1,
            sell_count = 0, buy_ratio = Fin 1, win_trades = 1, win_rate = Fin 100,
            pnl_std = None, cumulative_pnl = 10\<rparr>,
           \<lparr>date_daily = (2024, 12, 3), total_pnl = - 4, avg_pnl = Some (- 4), trade_count = 1,
            total_volume = 50, avg_volume = Some 50, sentiment_score_daily = Some 20,
            sentiment_category_daily = Some ''Fear'', buy_count = 0, total_fees = 1,
            sell_count = 1, buy_ratio = Fin 0, win_trades = 0, win_rate = Fin 0,
            pnl_std = None, cumulative_pnl = 6\<rparr>])"
  unfolding prepare_data_def two_day_merged create_daily_aggregates_def
  by (simp add: two_day_keys upt_rec
      ffill_def cumsum_def daily_agg_row_def group_of_def daily_agg.extend_def daily.fields_def
      series_sum_def series_count_def series_mean_def series_std_def mean_of_def std_of_def
      notna_def List.map_filter_simps count_buy_def count_win_def np_div_def Let_def)

section \<open>Running sum\<close>

lemma cumsum_from_0: "xs \<noteq> [] \<Longrightarrow> cumsum_from a xs ! 0 = a + xs ! 0"
  by (cases xs) auto

lemma cumsum_from_Suc:
  "Suc i < length xs \<Longrightarrow> cumsum_from a xs ! Suc i = cumsum_from a xs ! i + xs ! Suc i"
proof (induction xs arbitrary: a i)
  case Nil
  then show ?case by simp
next
  case (Cons x xs)
  show ?case
  proof (cases i)
    case 0
    with Cons.prems show ?thesis by (cases xs) auto
  next
    case (Suc k)
    with Cons.prems have "Suc k < length xs" by simp
    from Cons.IH [OF this, of "a + x"] Suc show ?thesis by simp
  qed
qed

text \<open>
  Claim C8. The daily table is in strictly ascending order of the day, the first
  \<open>cumulative_pnl\<close> is the first \<open>total_pnl\<close>, and every later one is the one before
  plus the \<open>total_pnl\<close> of its row.
\<close>

theorem cumulative_pnl_running_sum:
  "\<exists>ds. create_daily_aggregates (Some m) = Some ds
      \<and> sorted_wrt (<) (map date_daily ds)
      \<and> (ds \<noteq> [] \<longrightarrow> cumulative_pnl (ds ! 0) = total_pnl (ds ! 0))
      \<and> (\<forall>i. 1 \<le> i \<and> i < length ds \<longrightarrow>
            cumulative_pnl (ds ! i) = cumulative_pnl (ds ! (i - 1)) + total_pnl (ds ! i))"
proof -
  obtain ds where ds: "create_daily_aggregates (Some m) = Some ds"
    using create_daily_returns by blast
  let ?t = "map (\<lambda>d. series_sum (map Closed_PnL (group_of d m))) (group_keys m)"
  note f = create_daily_fields [OF ds]
  have len: "length ?t = length ds" by (simp add: f(1))
  have tot: "\<And>i. i < length ds \<Longrightarrow> total_pnl (ds ! i) = ?t ! i"
    by (simp add: f(1) f(3))
  have cum: "\<And>i. i < length ds \<Longrightarrow> cumulative_pnl (ds ! i) = cumsum_from 0 ?t ! i"
    by (simp add: f(4) cumsum_def)
  have a: "sorted_wrt (<) (map date_daily ds)"
    by (simp only: create_daily_dates [OF ds] sorted_group_keys)
  have b: "ds \<noteq> [] \<longrightarrow> cumulative_pnl (ds ! 0) = total_pnl (ds ! 0)"
  proof
    assume ne: "ds \<noteq> []"
    then have "?t \<noteq> []" using len by auto
    then have "cumsum_from 0 ?t ! 0 = 0 + ?t ! 0" by (rule cumsum_from_0)
    then show "cumulative_pnl (ds ! 0) = total_pnl (ds ! 0)"
      using ne tot [of 0] cum [of 0] by simp
  qed
  have c: "\<forall>i. 1 \<le> i \<and> i < length ds \<longrightarrow>
            cumulative_pnl (ds ! i) = cumulative_pnl (ds ! (i - 1)) + total_pnl (ds ! i)"
  proof (intro allI impI)
    fix i assume i: "1 \<le> i \<and> i < length ds"
    then obtain k where k: "i = Suc k" by (cases i) auto
    with i have "Suc k < length ?t" using len by simp
    then have "cumsum_from 0 ?t ! Suc k = cumsum_from 0 ?t ! k + ?t ! Suc k"
      by (rule cumsum_from_Suc)
    moreover have "k < length ds" using i k by simp
    ultimately show "cumulative_pnl (ds ! i) = cumulative_pnl (ds ! (i - 1)) + total_pnl (ds ! i)"
      using i k tot [of "Suc k"] cum [of "Suc k"] cum [of k] by simp
  qed
  from ds a b c show ?thesis by blast
qed

theorem cumulative_pnl_running_sum_witness:
  "\<exists>m ds. merge_by_date no_datetime no_datetime first_day_sentiment two_day_trades = Inr m
      \<and> create_daily_aggregates (Some m) = Some ds
      \<and> map date_daily ds = [(2024, 12, 2), (2024, 12, 3)]
      \<and> map total_pnl ds = [10, - 4]
      \<and> map cumulative_pnl ds = [10, 6]
      \<and> cumulative_pnl (ds ! 1) = cumulative_pnl (ds ! (1 - 1)) + total_pnl (ds ! 1)"
proof -
  obtain m where m: "merge_by_date no_datetime no_datetime first_day_sentiment two_day_trades = Inr m"
    using two_day_merged by blast
  obtain ds where ds: "create_daily_aggregates (Some m) = Some ds"
    and r: "\<forall>i. 1 \<le> i \<and> i < length ds \<longrightarrow>
            cumulative_pnl (ds ! i) = cumulative_pnl (ds ! (i - 1)) + total_pnl (ds ! i)"
    using cumulative_pnl_running_sum [of m] by blast
  from m ds two_day_daily have v: "map date_daily ds = [(2024, 12, 2), (2024, 12, 3)]"
    "map total_pnl ds = [10, - 4]" "map cumulative_pnl ds = [10, 6]" "length ds = 2"
    by (auto simp: prepare_data_def)
  from r v(4) have s: "cumulative_pnl (ds ! 1) = cumulative_pnl (ds ! (1 - 1)) + total_pnl (ds ! 1)"
    by simp
  show ?thesis
    by (rule exI [of _ m], rule exI [of _ ds]) (simp only: m ds v(1-3) s simp_thms)
qed

section \<open>Daily counts\<close>

lemma null_pnl_merged:
  "merge_by_date no_datetime no_datetime single_sentiment null_pnl_trades =
     Inr [\<lparr>Timestamp_IST = None, Timestamp = None, datetime = Some ((2024, 12, 2), 0),
       date = Some (2024, 12, 2), Side = Some ''BUY'', Closed_PnL = Some 10,
       Size_USD = Some 100, Fee = Some 1,
       sentiment_score = Some 15, sentiment_category = Some ''Extreme Fear''\<rparr>,
      \<lparr>Timestamp_IST = None, Timestamp = None, datetime = Some ((2024, 12, 2), 0),
       date = Some (2024, 12, 2), Side = Some ''BUY'', Closed_PnL = None,
       Size_USD = Some 50, Fee = Some 1,
       sentiment_score = Some 15, sentiment_category = Some ''Extreme Fear''\<rparr>]"
  by (simp add: merge_by_date_def single_sentiment_def null_pnl_trades_def merge_left_def
      with_sentiment_def trade.extend_def merged.fields_def notna_def List.map_filter_simps)

lemma null_pnl_keys:
  "group_keys
     [\<lparr>Timestamp_IST = None, Timestamp = None, datetime = Some ((2024, 12, 2), 0),
       date = Some (2024, 12, 2), Side = Some ''BUY'', Closed_PnL = Some 10,
       Size_USD = Some 100, Fee = Some 1,
       sentiment_score = Some 15, sentiment_category = Some ''Extreme Fear''\<rparr>,
      \<lparr>Timestamp_IST = None, Timestamp = None, datetime = Some ((2024, 12, 2), 0),
       date = Some (2024, 12, 2), Side = Some ''BUY'', Closed_PnL = None,
       Size_USD = Some 50, Fee = Some 1,
       sentiment_score = Some 15, sentiment_category = Some ''Extreme Fear''\<rparr>]
     = [(2024, 12, 2)]"
  by (simp add: group_keys_def List.map_filter_simps)

lemma null_pnl_daily_agg:
  "map_sum id get_daily_aggregates
     (merge_by_date no_datetime no_datetime single_sentiment null_pnl_trades) =
     Inr [\<lparr>date_daily = (2024, 12, 2), total_pnl = 10, avg_pnl = Some 10, trade_count = 1,
       total_volume = 150, avg_volume = Some 75, sentiment_score_daily = Some 15,
       sentiment_category_daily = Some ''Extreme Fear'', buy_count = 2, total_fees = 2,
       sell_count = - 1, buy_ratio = Fin 2, win_trades = 1, win_rate = Fin 100\<rparr>]"
  unfolding null_pnl_merged get_daily_aggregates_def
  by (simp add: null_pnl_keys daily_agg_row_def group_of_def
      series_sum_def series_count_def series_mean_def mean_of_def
      notna_def List.map_filter_simps count_buy_def count_win_def np_div_def Let_def)

lemma null_pnl_daily:
  "prepare_data no_datetime no_datetime single_sentiment null_pnl_trades =
     Inr (Some [\<lparr>date_daily = (2024, 12, 2), total_pnl = 10, avg_pnl = Some 10, trade_count = 1,
       total_volume = 150, avg_volume = Some 75, sentiment_score_daily = Some 15,
       sentiment_category_daily = Some ''Extreme Fear'', buy_count = 2, total_fees = 2,
       sell_count = - 1, buy_ratio = Fin 2, win_trades = 1, win_rate = Fin 100,
       pnl_std = None, cumulative_pnl = 10\<rparr>])"
  unfolding prepare_data_def null_pnl_merged create_daily_aggregates_def
  by (simp add: null_pnl_keys
      ffill_def cumsum_def daily_agg_row_def group_of_def daily_agg.extend_def daily.fields_def
      series_sum_def series_count_def series_mean_def series_std_def mean_of_def std_of_def
      notna_def List.map_filter_simps count_buy_def count_win_def np_div_def Let_def)

text \<open>
  Claim C5 at a day with two BUY rows, one of them with a null \<open>Closed PnL\<close>: nothing is
  raised, \<open>trade_count\<close> is the number of cells of \<open>Closed PnL\<close> that are not null, here 1,
  \<open>buy_count\<close> is 2, \<open>sell_count\<close> is -1 and \<open>buy_ratio\<close> is 2.
\<close>

theorem buy_ratio_null_pnl:
  "map_sum id (map trade_count \<circ> get_daily_aggregates)
     (merge_by_date no_datetime no_datetime single_sentiment null_pnl_trades) = Inr [1]
   \<and> map_sum id (map buy_count \<circ> get_daily_aggregates)
     (merge_by_date no_datetime no_datetime single_sentiment null_pnl_trades) = Inr [2]
   \<and> map_sum id (map sell_count \<circ> get_daily_aggregates)
     (merge_by_date no_datetime no_datetime single_sentiment null_pnl_trades) = Inr [- 1]
   \<and> map_sum id (map buy_ratio \<circ> get_daily_aggregates)
     (merge_by_date no_datetime no_datetime single_sentiment null_pnl_trades) = Inr [Fin 2]
   \<and> map_sum id (map_option (map buy_ratio))
     (prepare_data no_datetime no_datetime single_sentiment null_pnl_trades)
       = Inr (Some [Fin 2])"
proof -
  obtain m where m: "merge_by_date no_datetime no_datetime single_sentiment null_pnl_trades = Inr m"
    using null_pnl_merged by blast
  with null_pnl_daily_agg have "get_daily_aggregates m =
      [\<lparr>date_daily = (2024, 12, 2), total_pnl = 10, avg_pnl = Some 10, trade_count = 1,
       total_volume = 150, avg_volume = Some 75, sentiment_score_daily = Some 15,
       sentiment_category_daily = Some ''Extreme Fear'', buy_count = 2, total_fees = 2,
       sell_count = - 1, buy_ratio = Fin 2, win_trades = 1, win_rate = Fin 100\<rparr>]"
    by simp
  with m show ?thesis by (simp add: null_pnl_daily)
qed

text \<open>
  On every table \<open>buy_count + sell_count\<close> is \<open>trade_count\<close>; when no \<open>Closed PnL\<close> is
  null, \<open>buy_ratio\<close> lies between 0 and 1.
\<close>

lemma series_count_full:
  "\<forall>x\<in>set xs. x \<noteq> None \<Longrightarrow> series_count xs = length xs"
  by (induction xs) (auto simp: series_count_def notna_def List.map_filter_simps)

lemma group_nonempty: "d \<in> set (group_keys m) \<Longrightarrow> group_of d m \<noteq> []"
  by (auto simp: set_group_keys group_of_def filter_empty_conv)

lemma daily_agg_row_counts:
  "int (buy_count (daily_agg_row d g)) + sell_count (daily_agg_row d g)
     = int (trade_count (daily_agg_row d g))"
  by (simp add: daily_agg_row_def Let_def)

lemma daily_agg_row_ratio:
  assumes "g \<noteq> []" and "\<forall>r\<in>set g. Closed_PnL r \<noteq> None"
  shows "\<exists>q. buy_ratio (daily_agg_row d g) = Fin q \<and> 0 \<le> q \<and> q \<le> 1"
proof -
  have c: "series_count (map Closed_PnL g) = length g"
    using assms(2) by (simp add: series_count_full)
  have b: "count_buy g \<le> length g" by (simp add: count_buy_def)
  have pos: "0 < length g" using assms(1) by simp
  have "buy_ratio (daily_agg_row d g) = Fin (real (count_buy g) / real (length g))"
    using pos by (simp add: daily_agg_row_def Let_def c np_div_def)
  moreover have "0 \<le> real (count_buy g) / real (length g)" by simp
  moreover have "real (count_buy g) / real (length g) \<le> 1"
    using b pos by simp
  ultimately show ?thesis by blast
qed

lemma daily_counts_known_pnl:
  assumes "r \<in> set (get_daily_aggregates m)"
  shows "int (buy_count r) + sell_count r = int (trade_count r)"
    and "\<forall>x\<in>set m. Closed_PnL x \<noteq> None \<Longrightarrow> \<exists>q. buy_ratio r = Fin q \<and> 0 \<le> q \<and> q \<le> 1"
proof -
  from assms obtain d where d: "d \<in> set (group_keys m)" and r: "r = daily_agg_row d (group_of d m)"
    by (auto simp: get_daily_aggregates_def)
  show "int (buy_count r) + sell_count r = int (trade_count r)"
    by (simp add: r daily_agg_row_counts)
  assume k: "\<forall>x\<in>set m. Closed_PnL x \<noteq> None"
  then have "\<forall>x\<in>set (group_of d m). Closed_PnL x \<noteq> None" by (simp add: group_of_def)
  with group_nonempty [OF d] show "\<exists>q. buy_ratio r = Fin q \<and> 0 \<le> q \<and> q \<le> 1"
    unfolding r by (rule daily_agg_row_ratio)
qed

section \<open>Rows entering the correlations\<close>

text \<open>
  On every merged table the rows that enter the correlations are the days whose sentiment
  is known after the forward fill: the days for which the sentiment table has a value on
  that day or on an earlier day of the daily table.
\<close>

lemma ffill_from_known:
  "i < length xs \<Longrightarrow>
     (ffill_from p xs ! i \<noteq> None) = (p \<noteq> None \<or> (\<exists>j\<le>i. xs ! j \<noteq> None))"
proof (induction p xs arbitrary: i rule: ffill_from.induct)
  case (1 prev)
  then show ?case by simp
next
  case (2 prev xs)
  show ?case
  proof (cases i)
    case 0
    then show ?thesis by simp
  next
    case (Suc k)
    with "2.prems" have k: "k < length xs" by simp
    have "(\<exists>j\<le>Suc k. (None # xs) ! j \<noteq> None) = (\<exists>j\<le>k. xs ! j \<noteq> None)"
    proof
      assume "\<exists>j\<le>Suc k. (None # xs) ! j \<noteq> None"
      then obtain j where j: "j \<le> Suc k" "(None # xs) ! j \<noteq> None" by blast
      then obtain j' where "j = Suc j'" by (cases j) auto
      with j show "\<exists>j\<le>k. xs ! j \<noteq> None" by auto
    next
      assume "\<exists>j\<le>k. xs ! j \<noteq> None"
      then obtain j where "j \<le> k" "xs ! j \<noteq> None" by blast
      then have "Suc j \<le> Suc k \<and> (None # xs) ! Suc j \<noteq> None" by simp
      then show "\<exists>j\<le>Suc k. (None # xs) ! j \<noteq> None" by blast
    qed
    with "2.IH" [OF k] Suc show ?thesis by simp
  qed
next
  case (3 prev v xs)
  show ?case
  proof (cases i)
    case 0
    then show ?thesis by simp
  next
    case (Suc k)
    with "3.prems" have k: "k < length xs" by simp
    have "\<exists>j\<le>Suc k. (Some v # xs) ! j \<noteq> None" by (rule exI [of _ 0]) simp
    with "3.IH" [OF k] Suc show ?thesis by simp
  qed
qed

lemma ffill_known:
  "i < length xs \<Longrightarrow> (ffill xs ! i \<noteq> None) = (\<exists>j\<le>i. xs ! j \<noteq> None)"
  unfolding ffill_def using ffill_from_known [of i xs None] by simp

lemma first_valid_known: "(first_valid xs \<noteq> None) = (\<exists>x\<in>set xs. x \<noteq> None)"
  by (induction xs rule: first_valid.induct) auto

lemma strict_sorted_nth_le:
  fixes ks :: "date list"
  assumes "sorted_wrt (<) ks" "i < length ks" "j < length ks"
  shows "(ks ! j \<le> ks ! i) = (j \<le> i)"
proof
  assume le: "ks ! j \<le> ks ! i"
  show "j \<le> i"
  proof (rule ccontr)
    assume "\<not> j \<le> i"
    then have "i < j" by simp
    then have "ks ! i < ks ! j" using assms(1,3) by (simp add: sorted_wrt_nth_less)
    with le show False by simp
  qed
next
  assume "j \<le> i"
  then have "j = i \<or> j < i" by auto
  then show "ks ! j \<le> ks ! i"
  proof
    assume "j = i" then show ?thesis by simp
  next
    assume "j < i"
    then have "ks ! j < ks ! i" using assms(1,2) by (simp add: sorted_wrt_nth_less)
    then show ?thesis by simp
  qed
qed

lemma clean_data_days:
  assumes ds: "create_daily_aggregates (Some m) = Some ds"
  shows "map date_daily (clean_data ds)
         = filter (\<lambda>d. \<exists>e\<in>set (group_keys m). e \<le> d
                      \<and> first_valid (map sentiment_score (group_of e m)) \<noteq> None)
             (group_keys m)"
proof -
  let ?ks = "group_keys m"
  let ?own = "\<lambda>d. first_valid (map sentiment_score (group_of d m))"
  let ?Q = "\<lambda>d. \<exists>e\<in>set ?ks. e \<le> d \<and> ?own e \<noteq> None"
  note f = create_daily_fields [OF ds]
  have pq: "(sentiment_score_daily r \<noteq> None) = ?Q (date_daily r)" if r: "r \<in> set ds" for r
  proof -
    from r obtain i where i: "i < length ds" and ri: "r = ds ! i"
      by (auto simp: in_set_conv_nth)
    have il: "i < length (map ?own ?ks)" using i f(1) by simp
    have "(sentiment_score_daily r \<noteq> None) = (\<exists>j\<le>i. map ?own ?ks ! j \<noteq> None)"
      using f(5) [OF i] ffill_known [OF il] ri by simp
    also have "\<dots> = (\<exists>j\<le>i. ?own (?ks ! j) \<noteq> None)"
      using i f(1) by auto
    also have "\<dots> = (\<exists>j<length ?ks. ?ks ! j \<le> ?ks ! i \<and> ?own (?ks ! j) \<noteq> None)"
    proof
      assume "\<exists>j\<le>i. ?own (?ks ! j) \<noteq> None"
      then obtain j where j: "j \<le> i" "?own (?ks ! j) \<noteq> None" by blast
      then have jl: "j < length ?ks" using i f(1) by simp
      have "?ks ! j \<le> ?ks ! i"
        using strict_sorted_nth_le [OF sorted_group_keys, of i m j] i f(1) jl j(1) by simp
      with jl j(2) show "\<exists>j<length ?ks. ?ks ! j \<le> ?ks ! i \<and> ?own (?ks ! j) \<noteq> None"
        by blast
    next
      assume "\<exists>j<length ?ks. ?ks ! j \<le> ?ks ! i \<and> ?own (?ks ! j) \<noteq> None"
      then obtain j where j: "j < length ?ks" "?ks ! j \<le> ?ks ! i" "?own (?ks ! j) \<noteq> None"
        by blast
      have "j \<le> i"
        using strict_sorted_nth_le [OF sorted_group_keys, of i m j] i f(1) j(1,2) by simp
      with j(3) show "\<exists>j\<le>i. ?own (?ks ! j) \<noteq> None" by blast
    qed
    also have "\<dots> = ?Q (?ks ! i)"
    proof
      assume "\<exists>j<length ?ks. ?ks ! j \<le> ?ks ! i \<and> ?own (?ks ! j) \<noteq> None"
      then obtain j where j: "j < length ?ks" "?ks ! j \<le> ?ks ! i" "?own (?ks ! j) \<noteq> None"
        by blast
      from j(1) have "?ks ! j \<in> set ?ks" by (rule nth_mem)
      with j(2,3) show "?Q (?ks ! i)" by blast
    next
      assume "?Q (?ks ! i)"
      then obtain e where e: "e \<in> set ?ks" "e \<le> ?ks ! i" "?own e \<noteq> None" by blast
      from e(1) obtain j where "j < length ?ks" "?ks ! j = e"
        by (auto simp: in_set_conv_nth)
      with e(2,3) show "\<exists>j<length ?ks. ?ks ! j \<le> ?ks ! i \<and> ?own (?ks ! j) \<noteq> None"
        by blast
    qed
    finally show ?thesis using f(2) [OF i] ri by simp
  qed
  have "map date_daily (clean_data ds) = map date_daily (filter (?Q \<circ> date_daily) ds)"
    unfolding clean_data_def
  proof (rule arg_cong [where f = "map date_daily"], rule filter_cong)
    show "ds = ds" ..
  next
    fix x assume "x \<in> set ds"
    from pq [OF this] show "(sentiment_score_daily x \<noteq> None) = (?Q \<circ> date_daily) x"
      unfolding comp_def .
  qed
  also have "\<dots> = filter ?Q (map date_daily ds)" by (simp add: filter_map)
  finally show ?thesis by (simp only: create_daily_dates [OF ds])
qed

lemma with_sentiment_sel:
  "date (with_sentiment t v c) = date t"
  "sentiment_score (with_sentiment t v c) = v"
  by (simp_all add: with_sentiment_def trade.extend_def merged.fields_def)

lemma set_merge_left:
  "set (merge_left ts fg) =
     (\<Union>t\<in>set ts. if \<exists>g\<in>set fg. date t = Some (fg_date g)
                   then {with_sentiment t (fg_value g) (classification g) |g.
                           g \<in> set fg \<and> date t = Some (fg_date g)}
                   else {with_sentiment t None None})"
proof -
  have one: "set (case filter (\<lambda>g. date t = Some (fg_date g)) fg of
                [] \<Rightarrow> [with_sentiment t None None]
              | gs \<Rightarrow> map (\<lambda>g. with_sentiment t (fg_value g) (classification g)) gs)
        = (if \<exists>g\<in>set fg. date t = Some (fg_date g)
           then {with_sentiment t (fg_value g) (classification g) |g.
                   g \<in> set fg \<and> date t = Some (fg_date g)}
           else {with_sentiment t None None})" for t
  proof (cases "filter (\<lambda>g. date t = Some (fg_date g)) fg")
    case Nil
    then have "\<not> (\<exists>g\<in>set fg. date t = Some (fg_date g))"
      by (simp add: filter_empty_conv)
    with Nil show ?thesis by simp
  next
    case (Cons a as)
    then have "a \<in> set (filter (\<lambda>g. date t = Some (fg_date g)) fg)" by simp
    then have ex: "\<exists>g\<in>set fg. date t = Some (fg_date g)" by auto
    have "set (map (\<lambda>g. with_sentiment t (fg_value g) (classification g))
                 (filter (\<lambda>g. date t = Some (fg_date g)) fg))
          = {with_sentiment t (fg_value g) (classification g) |g.
                   g \<in> set fg \<and> date t = Some (fg_date g)}"
      by auto
    with Cons ex show ?thesis by simp
  qed
  show ?thesis unfolding merge_left_def by (simp add: one)
qed

lemma own_sentiment_merge_left:
  assumes d: "d \<in> set (group_keys (merge_left ts fg))"
  shows "(first_valid (map sentiment_score (group_of d (merge_left ts fg))) \<noteq> None)
         = (\<exists>g\<in>set fg. fg_date g = d \<and> fg_value g \<noteq> None)"
proof -
  let ?m = "merge_left ts fg"
  have "(first_valid (map sentiment_score (group_of d ?m)) \<noteq> None)
        = (\<exists>x\<in>set (map sentiment_score (group_of d ?m)). x \<noteq> None)"
    by (rule first_valid_known)
  also have "\<dots> = (\<exists>r\<in>set ?m. date r = Some d \<and> sentiment_score r \<noteq> None)"
    by (auto simp: group_of_def)
  also have "\<dots> = (\<exists>g\<in>set fg. fg_date g = d \<and> fg_value g \<noteq> None)"
  proof
    assume "\<exists>r\<in>set ?m. date r = Some d \<and> sentiment_score r \<noteq> None"
    then obtain r where r: "r \<in> set ?m" "date r = Some d" "sentiment_score r \<noteq> None" by blast
    from r(1) obtain t where t: "t \<in> set ts"
      and rt: "r \<in> (if \<exists>g\<in>set fg. date t = Some (fg_date g)
                   then {with_sentiment t (fg_value g) (classification g) |g.
                           g \<in> set fg \<and> date t = Some (fg_date g)}
                   else {with_sentiment t None None})"
      unfolding set_merge_left by blast
    show "\<exists>g\<in>set fg. fg_date g = d \<and> fg_value g \<noteq> None"
    proof (cases "\<exists>g\<in>set fg. date t = Some (fg_date g)")
      case True
      with rt obtain g where g: "g \<in> set fg" "date t = Some (fg_date g)"
          "r = with_sentiment t (fg_value g) (classification g)" by auto
      with r(2,3) have "fg_date g = d \<and> fg_value g \<noteq> None"
        by (simp add: with_sentiment_sel)
      with g(1) show ?thesis by blast
    next
      case False
      with rt have "r = with_sentiment t None None" by simp
      with r(3) show ?thesis by (simp add: with_sentiment_sel)
    qed
  next
    assume "\<exists>g\<in>set fg. fg_date g = d \<and> fg_value g \<noteq> None"
    then obtain g where g: "g \<in> set fg" "fg_date g = d" "fg_value g \<noteq> None" by blast
    from d obtain r where r: "r \<in> set ?m" "date r = Some d"
      by (auto simp: set_group_keys)
    from r(1) obtain t where t: "t \<in> set ts"
      and rt: "r \<in> (if \<exists>g\<in>set fg. date t = Some (fg_date g)
                   then {with_sentiment t (fg_value g) (classification g) |g.
                           g \<in> set fg \<and> date t = Some (fg_date g)}
                   else {with_sentiment t None None})"
      unfolding set_merge_left by blast
    have dt: "date t = Some d"
      using rt r(2) by (auto simp: with_sentiment_sel split: if_splits)
    then have ex: "\<exists>g\<in>set fg. date t = Some (fg_date g)" using g by auto
    let ?r = "with_sentiment t (fg_value g) (classification g)"
    have "?r \<in> set ?m"
      unfolding set_merge_left using t ex g dt by auto
    moreover have "date ?r = Some d \<and> sentiment_score ?r \<noteq> None"
      using dt g(3) by (simp add: with_sentiment_sel)
    ultimately show "\<exists>r\<in>set ?m. date r = Some d \<and> sentiment_score r \<noteq> None" by blast
  qed
  finally show ?thesis .
qed

lemma correlation_days_merge_left:
  assumes ds: "create_daily_aggregates (Some (merge_left ts fg)) = Some ds"
  shows "map date_daily (clean_data ds)
         = filter (\<lambda>d. \<exists>g\<in>set fg. fg_value g \<noteq> None \<and> fg_date g \<le> d
                       \<and> fg_date g \<in> set (map date_daily ds))
             (map date_daily ds)"
proof -
  let ?m = "merge_left ts fg"
  have k: "map date_daily ds = group_keys ?m" by (rule create_daily_dates [OF ds])
  have "(\<exists>e\<in>set (group_keys ?m). e \<le> d
            \<and> first_valid (map sentiment_score (group_of e ?m)) \<noteq> None)
        = (\<exists>g\<in>set fg. fg_value g \<noteq> None \<and> fg_date g \<le> d \<and> fg_date g \<in> set (group_keys ?m))"
    for d
    using own_sentiment_merge_left [of _ ts fg] by blast
  then show ?thesis
    unfolding k clean_data_days [OF ds] by simp
qed

lemma three_day_merged:
  "merge_by_date no_datetime no_datetime two_day_sentiment three_day_trades =
     Inr [\<lparr>Timestamp_IST = None, Timestamp = None, datetime = Some ((2024, 12, 2), 0),
       date = Some (2024, 12, 2), Side = Some ''BUY'', Closed_PnL = Some 30,
       Size_USD = Some 300, Fee = Some 1,
       sentiment_score = Some 10, sentiment_category = Some ''Extreme Fear''\<rparr>,
      \<lparr>Timestamp_IST = None, Timestamp = None, datetime = Some ((2024, 12, 3), 0),
       date = Some (2024, 12, 3), Side = Some ''BUY'', Closed_PnL = Some 50,
       Size_USD = Some 320, Fee = Some 1,
       sentiment_score = Some 40, sentiment_category = Some ''Fear''\<rparr>,
      \<lparr>Timestamp_IST = None, Timestamp = None, datetime = Some ((2024, 12, 4), 0),
       date = Some (2024, 12, 4), Side = Some ''BUY'', Closed_PnL = Some 10,
       Size_USD = Some 280, Fee = Some 1,
       sentiment_score = None, sentiment_category = None\<rparr>]"
  by (simp add: merge_by_date_def two_day_sentiment_def three_day_trades_def merge_left_def
      with_sentiment_def trade.extend_def merged.fields_def notna_def List.map_filter_simps)

lemma three_day_keys:
  "group_keys
     [\<lparr>Timestamp_IST = None, Timestamp = None, datetime = Some ((2024, 12, 2), 0),
       date = Some (2024, 12, 2), Side = Some ''BUY'', Closed_PnL = Some 30,
       Size_USD = Some 300, Fee = Some 1,
       sentiment_score = Some 10, sentiment_category = Some ''Extreme Fear''\<rparr>,
      \<lparr>Timestamp_IST = None, Timestamp = None, datetime = Some ((2024, 12, 3), 0),
       date = Some (2024, 12, 3), Side = Some ''BUY'', Closed_PnL = Some 50,
       Size_USD = Some 320, Fee = Some 1,
       sentiment_score = Some 40, sentiment_category = Some ''Fear''\<rparr>,
      \<lparr>Timestamp_IST = None, Timestamp = None, datetime = Some ((2024, 12, 4), 0),
       date = Some (2024, 12, 4), Side = Some ''BUY'', Closed_PnL = Some 10,
       Size_USD = Some 280, Fee = Some 1,
       sentiment_score = None, sentiment_category = None\<rparr>]
     = [(2024, 12, 2), (2024, 12, 3), (2024, 12, 4)]"
  by (simp add: group_keys_def List.map_filter_simps)

lemma three_day_daily:
  "prepare_data no_datetime no_datetime two_day_sentiment three_day_trades =
     Inr (Some [\<lparr>date_daily = (2024, 12, 2), total_pnl = 30, avg_pnl = Some 30, trade_count = 1,
            total_volume = 300, avg_volume = Some 300, sentiment_score_daily = Some 10,
            sentiment_category_daily = Some ''Extreme Fear'', buy_count = 1, total_fees = 1,
            sell_count = 0, buy_ratio = Fin 1, win_trades = 1, win_rate = Fin 100,
            pnl_std = None, cumulative_pnl = 30\<rparr>,
           \<lparr>date_daily = (2024, 12, 3), total_pnl = 50, avg_pnl = Some 50, trade_count = 1,
            total_volume = 320, avg_volume = Some 320, sentiment_score_daily = Some 40,
            sentiment_category_daily = Some ''Fear'', buy_count = 1, total_fees = 1,
            sell_count = 0, buy_ratio = Fin 1, win_trades = 1, win_rate = Fin 100,
            pnl_std = None, cumulative_pnl = 80\<rparr>,
           \<lparr>date_daily = (2024, 12, 4), total_pnl = 10, avg_pnl = Some 10, trade_count = 1,
            total_volume = 280, avg_volume = Some 280, sentiment_score_daily = Some 40,
            sentiment_category_daily = Some ''Fear'', buy_count = 1, total_fees = 1,
            sell_count = 0, buy_ratio = Fin 1, win_trades = 1, win_rate = Fin 100,
            pnl_std = None, cumulative_pnl = 90\<rparr>])"
  unfolding prepare_data_def three_day_merged create_daily_aggregates_def
  by (simp add: three_day_keys upt_rec
      ffill_def cumsum_def daily_agg_row_def group_of_def daily_agg.extend_def daily.fields_def
      series_sum_def series_count_def series_mean_def series_std_def mean_of_def std_of_def
      notna_def List.map_filter_simps count_buy_def count_win_def np_div_def Let_def)

lemma own_days_correlated:
  "series_corr [Some 10, Some 40] [Some 30, Some 50] = Some 1"
proof -
  have "sqrt 450 * sqrt 200 = sqrt 90000" by (simp add: real_sqrt_mult [symmetric])
  also have "sqrt 90000 = 300" by (rule real_sqrt_unique) (simp_all add: power2_eq_square)
  finally have "sqrt 450 * sqrt 200 = 300" .
  then show ?thesis
    by (simp add: series_corr_def valid_pairs_def List.map_filter_simps pearson_def Let_def
        power2_eq_square)
qed

text \<open>
  Claim C1 at trades on three days with sentiment records for the first two: the analyzer
  is built without an exception, the third day has no record of its own, takes the
  sentiment 40 of the second by the forward fill and is among the rows that
  \<open>calculate_sentiment_trading_correlations\<close> correlates. The correlation of sentiment and
  PnL is 0 on the three points (10, 30), (40, 50), (40, 10); on the two days with a record
  of their own, (10, 30) and (40, 50), it is not 0.
\<close>

theorem forward_filled_day_in_correlations:
  "map fg_date two_day_sentiment = [(2024, 12, 2), (2024, 12, 3)]
   \<and> map_sum id (map_option (map date_daily \<circ> clean_data))
       (prepare_data no_datetime no_datetime two_day_sentiment three_day_trades)
       = Inr (Some [(2024, 12, 2), (2024, 12, 3), (2024, 12, 4)])
   \<and> map_sum id calculate_sentiment_trading_correlations
       (prepare_data no_datetime no_datetime two_day_sentiment three_day_trades)
       = Inr [(''sentiment_pnl'', Some 0), (''sentiment_volume'', Some 0),
              (''sentiment_trades'', None), (''sentiment_winrate'', None)]
   \<and> series_corr [Some 10, Some 40] [Some 30, Some 50] \<noteq> Some 0"
proof -
  have a: "map fg_date two_day_sentiment = [(2024, 12, 2), (2024, 12, 3)]"
    by (simp add: two_day_sentiment_def)
  have b: "map_sum id (map_option (map date_daily \<circ> clean_data))
       (prepare_data no_datetime no_datetime two_day_sentiment three_day_trades)
       = Inr (Some [(2024, 12, 2), (2024, 12, 3), (2024, 12, 4)])"
    by (simp add: three_day_daily clean_data_def)
  have c: "map_sum id calculate_sentiment_trading_correlations
       (prepare_data no_datetime no_datetime two_day_sentiment three_day_trades)
       = Inr [(''sentiment_pnl'', Some 0), (''sentiment_volume'', Some 0),
              (''sentiment_trades'', None), (''sentiment_winrate'', None)]"
    by (simp add: three_day_daily calculate_sentiment_trading_correlations_def clean_data_def
        series_corr_def valid_pairs_def List.map_filter_simps pearson_def Let_def
        power2_eq_square)
  have d: "series_corr [Some 10, Some 40] [Some 30, Some 50] \<noteq> Some 0"
    by (simp add: own_days_correlated)
  from a b c d show ?thesis by blast
qed

section \<open>Derived day\<close>

text \<open>
  The precedence itself holds at both places: in the table cleaned by the loader and in
  the table the analyzer derives, the date of every row is the day of the precedence,
  computed from the timestamps of that row.
\<close>

lemma rows_set_datetime:
  "rows (set_datetime strp epoch df) =
     map (\<lambda>r. r\<lparr>datetime :=
                 (if ''Timestamp IST'' \<in> set (columns df) then Option.bind (Timestamp_IST r) strp
                  else if ''Timestamp'' \<in> set (columns df) then Option.bind (Timestamp r) epoch
                  else Some fallback_datetime)\<rparr>) (rows df)"
  by (simp add: set_datetime_def)

lemma derived_day_rows:
  "map date (rows (set_date (set_datetime strp epoch df)))
     = map (derived_day strp epoch (columns df)) (rows df)"
  by (auto simp: set_date_def rows_set_datetime derived_day_def dt_date_def fallback_datetime_def
      split: option.splits)

lemma timestamps_kept:
  "map Timestamp_IST (rows (set_date (set_datetime strp epoch df))) = map Timestamp_IST (rows df)"
  "map Timestamp (rows (set_date (set_datetime strp epoch df))) = map Timestamp (rows df)"
  by (simp_all add: set_date_def rows_set_datetime comp_def)

lemma set_datetime_rows:
  assumes "r \<in> set (rows (set_date (set_datetime strp epoch df)))"
  shows "date r = derived_day strp epoch (columns df) r"
proof -
  let ?X = "\<lambda>r::trade. if ''Timestamp IST'' \<in> set (columns df) then Option.bind (Timestamp_IST r) strp
                  else if ''Timestamp'' \<in> set (columns df) then Option.bind (Timestamp r) epoch
                  else Some fallback_datetime"
  from assms obtain q where q: "q \<in> set (rows df)"
    and r: "r = q\<lparr>datetime := ?X q, date := dt_date (?X q)\<rparr>"
    unfolding set_date_def rows_set_datetime by auto
  have "dt_date (?X q) = derived_day strp epoch (columns df) q"
    by (cases "Timestamp_IST q"; cases "Timestamp q")
      (auto simp: derived_day_def dt_date_def fallback_datetime_def split: option.splits)
  then show ?thesis by (simp add: r derived_day_def)
qed

lemma set_sort_values_datetime: "set (sort_values_datetime rs) = set rs"
  by (auto simp: sort_values_datetime_def)

lemma clean_rows_day:
  assumes "r \<in> set (rows (clean_trading_data strp epoch df))"
  shows "date r = derived_day strp epoch (columns df) r"
proof -
  from assms obtain q where q: "q \<in> set (rows (set_datetime strp epoch df))"
    and r: "r = q\<lparr>date := dt_date (datetime q)\<rparr>"
    by (auto simp: clean_trading_data_def Let_def set_date_def set_sort_values_datetime)
  then have "r \<in> set (rows (set_date (set_datetime strp epoch df)))"
    by (auto simp: set_date_def)
  then show ?thesis by (rule set_datetime_rows)
qed

lemma clean_rows_set:
  "set (rows (clean_trading_data strp epoch df)) =
     (\<lambda>r. r\<lparr>datetime :=
                 (if ''Timestamp IST'' \<in> set (columns df) then Option.bind (Timestamp_IST r) strp
                  else if ''Timestamp'' \<in> set (columns df) then Option.bind (Timestamp r) epoch
                  else Some fallback_datetime),
             date := derived_day strp epoch (columns df) r\<rparr>)
       ` {r \<in> set (rows df). Side r \<noteq> None}"
proof -
  define X where "X = (\<lambda>r::trade.
      if ''Timestamp IST'' \<in> set (columns df) then Option.bind (Timestamp_IST r) strp
      else if ''Timestamp'' \<in> set (columns df) then Option.bind (Timestamp r) epoch
      else Some fallback_datetime)"
  have rs: "rows (set_datetime strp epoch df) = map (\<lambda>r. r\<lparr>datetime := X r\<rparr>) (rows df)"
    by (simp add: rows_set_datetime X_def)
  have d: "dt_date (X q) = derived_day strp epoch (columns df) q" for q :: trade
    unfolding X_def
    by (cases "Timestamp_IST q"; cases "Timestamp q")
      (auto simp: derived_day_def dt_date_def fallback_datetime_def split: option.splits)
  have "set (rows (clean_trading_data strp epoch df))
        = (\<lambda>q. q\<lparr>date := dt_date (datetime q)\<rparr>)
            ` {q \<in> (\<lambda>r. r\<lparr>datetime := X r\<rparr>) ` set (rows df). Side q \<noteq> None}"
    by (simp add: clean_trading_data_def Let_def set_date_def rs set_sort_values_datetime)
  also have "\<dots> = (\<lambda>r. r\<lparr>datetime := X r, date := dt_date (X r)\<rparr>)
                     ` {r \<in> set (rows df). Side r \<noteq> None}"
    by (force simp: image_iff)
  finally have e: "set (rows (clean_trading_data strp epoch df))
        = (\<lambda>r. r\<lparr>datetime := X r, date := dt_date (X r)\<rparr>)
            ` {r \<in> set (rows df). Side r \<noteq> None}" .
  from e [unfolded d] show ?thesis unfolding X_def .
qed

lemma clean_rows_length:
  "length (rows (clean_trading_data strp epoch df))
     = length (filter (\<lambda>r. Side r \<noteq> None) (rows df))"
proof -
  have "length (sort_values_datetime rs) = length rs" for rs :: "trade list"
    unfolding sort_values_datetime_def
    using sum_length_filter_compl [of "\<lambda>r. datetime r \<noteq> None" rs]
    by (simp only: length_append length_sort not_not)
  then show ?thesis
    by (simp add: clean_trading_data_def Let_def set_date_def rows_set_datetime filter_map comp_def)
qed

lemma merged_rows_day:
  assumes nd: "''date'' \<notin> set (columns td)"
    and m: "merge_by_date strp epoch fg td = Inr m"
    and r: "r \<in> set m"
  shows "date r = derived_day strp epoch (columns td) r"
proof -
  let ?ts = "rows (set_date (set_datetime strp epoch td))"
  from nd m have "m = merge_left ?ts fg"
    by (auto simp: merge_by_date_def Let_def split: if_splits)
  with r have "r \<in> set (merge_left ?ts fg)" by simp
  then obtain t v c where t: "t \<in> set ?ts" and rt: "r = with_sentiment t v c"
    unfolding set_merge_left by (auto split: if_splits)
  have "date t = derived_day strp epoch (columns td) t" using t by (rule set_datetime_rows)
  then show ?thesis
    by (simp add: rt with_sentiment_def trade.extend_def derived_day_def)
qed

lemma loader_days_examples:
  "map date (rows (clean_trading_data strp_example epoch_example raw_ist_trades))
     = [Some (2024, 12, 2), None]"
  "map date (rows (clean_trading_data strp_example epoch_example raw_epoch_trades))
     = [Some (2024, 12, 2)]"
  "map date (rows (clean_trading_data strp_example epoch_example raw_untimed_trades))
     = [Some (2024, 12, 2)]"
proof -
  show "map date (rows (clean_trading_data strp_example epoch_example raw_ist_trades))
     = [Some (2024, 12, 2), None]"
    by (simp add: clean_trading_data_def Let_def set_date_def rows_set_datetime raw_ist_trades_def
        strp_example_def sort_values_datetime_def dt_date_def)
  show "map date (rows (clean_trading_data strp_example epoch_example raw_epoch_trades))
       = [Some (2024, 12, 2)]"
    by (simp add: clean_trading_data_def Let_def set_date_def rows_set_datetime raw_epoch_trades_def
        epoch_example_def sort_values_datetime_def dt_date_def)
  show "map date (rows (clean_trading_data strp_example epoch_example raw_untimed_trades))
       = [Some (2024, 12, 2)]"
    by (simp add: clean_trading_data_def Let_def set_date_def rows_set_datetime
        raw_untimed_trades_def sort_values_datetime_def dt_date_def fallback_datetime_def)
qed

lemma raw_ist_merged_days:
  "map_sum id (map date)
     (merge_by_date strp_example epoch_example single_sentiment raw_ist_trades)
     = Inr [None, Some (2024, 12, 2)]"
  by (simp add: merge_by_date_def Let_def set_date_def rows_set_datetime raw_ist_trades_def
      strp_example_def merge_left_def single_sentiment_def with_sentiment_def
      trade.extend_def dt_date_def notna_def List.map_filter_simps)

lemma raw_unparsed_cleaned:
  "clean_trading_data strp_example epoch_example raw_unparsed_trades =
     \<lparr>columns = [''Account'', ''Side'', ''Execution Price'', ''Closed PnL'', ''Size USD'', ''Fee'',
                 ''Timestamp IST'', ''datetime'', ''date''],
      rows = [\<lparr>Timestamp_IST = Some ''yesterday'', Timestamp = None, datetime = None,
               date = None, Side = Some ''BUY'', Closed_PnL = Some 10,
               Size_USD = Some 100, Fee = Some 1\<rparr>]\<rparr>"
  by (simp add: clean_trading_data_def Let_def set_date_def set_datetime_def
      raw_unparsed_trades_def strp_example_def sort_values_datetime_def add_column_def
      dt_date_def)

text \<open>
  Claim C9 at a table whose only timestamp does not parse. The loader gives the row a
  null date and returns. The analyzer derives the same null date, and its merge then
  raises a \<open>ValueError\<close>, on the raw table and on the table cleaned by the loader alike:
  the null day is not propagated. When another row of the table has a day, the null day
  of an unparseable row is propagated.
\<close>

theorem unparseable_table_raises:
  "map date (rows (clean_trading_data strp_example epoch_example raw_unparsed_trades)) = [None]
   \<and> merge_by_date strp_example epoch_example single_sentiment raw_unparsed_trades
       = Inl (ValueError ''You are trying to merge on datetime64[ns] and object columns'')
   \<and> prepare_data strp_example epoch_example single_sentiment
         (clean_trading_data strp_example epoch_example raw_unparsed_trades)
       = Inl (ValueError ''You are trying to merge on datetime64[ns] and object columns'')
   \<and> map_sum id (map date)
         (merge_by_date strp_example epoch_example single_sentiment raw_ist_trades)
       = Inr [None, Some (2024, 12, 2)]"
proof -
  have a: "map date (rows (clean_trading_data strp_example epoch_example raw_unparsed_trades))
             = [None]"
    by (simp add: raw_unparsed_cleaned)
  have b: "merge_by_date strp_example epoch_example single_sentiment raw_unparsed_trades
       = Inl (ValueError ''You are trying to merge on datetime64[ns] and object columns'')"
    by (simp add: merge_by_date_def Let_def set_date_def rows_set_datetime
        raw_unparsed_trades_def strp_example_def single_sentiment_def dt_date_def
        notna_def List.map_filter_simps)
  have c: "prepare_data strp_example epoch_example single_sentiment
         (clean_trading_data strp_example epoch_example raw_unparsed_trades)
       = Inl (ValueError ''You are trying to merge on datetime64[ns] and object columns'')"
    by (simp add: prepare_data_def raw_unparsed_cleaned merge_by_date_def single_sentiment_def
        notna_def List.map_filter_simps)
  from a b c raw_ist_merged_days show ?thesis by blast
qed

end
